theory Spec2Isabelle
  imports Complex_Main "HOL-Library.Sublist" "HOL-Library.DAList"
begin

section \<open>Go string primitives used by the lambda plugin\<close>

text \<open>
  A Go string is a sequence of bytes; \<^typ>\<open>string\<close> (a list of 8-bit characters) is
  the same thing.  The \<open>strings\<close> package functions that \<open>plugins/jsvm/lambdas.go\<close>
  calls are modelled byte for byte.
\<close>

definition HasPrefix :: "string \<Rightarrow> string \<Rightarrow> bool" where
  "HasPrefix s pre = prefix pre s"

definition HasSuffix :: "string \<Rightarrow> string \<Rightarrow> bool" where
  "HasSuffix s suf = suffix suf s"

definition Contains :: "string \<Rightarrow> string \<Rightarrow> bool" where
  "Contains s substr = sublist substr s"

text \<open>
  \<open>strings.TrimSpace\<close> removes leading and trailing runes for which \<open>unicode.IsSpace\<close>
  holds.  These are the six ASCII characters tab, line feed, vertical tab, form feed,
  carriage return and space, U+0085, U+00A0, and the code points U+1680, U+2000 to
  U+200A, U+2028, U+2029, U+202F, U+205F and U+3000.  The list below holds their UTF-8
  encodings.  A byte that does not start one of these encodings (in particular an
  invalid byte, which Go decodes as U+FFFD) ends the trimming.
\<close>

definition space_encodings :: "string list" where
  "space_encodings =
    [[CHR 0x09], [CHR 0x0A], [CHR 0x0B], [CHR 0x0C], [CHR 0x0D], [CHR 0x20],
     [CHR 0xC2, CHR 0x85], [CHR 0xC2, CHR 0xA0],
     [CHR 0xE1, CHR 0x9A, CHR 0x80],
     [CHR 0xE2, CHR 0x80, CHR 0x80], [CHR 0xE2, CHR 0x80, CHR 0x81],
     [CHR 0xE2, CHR 0x80, CHR 0x82], [CHR 0xE2, CHR 0x80, CHR 0x83],
     [CHR 0xE2, CHR 0x80, CHR 0x84], [CHR 0xE2, CHR 0x80, CHR 0x85],
     [CHR 0xE2, CHR 0x80, CHR 0x86], [CHR 0xE2, CHR 0x80, CHR 0x87],
     [CHR 0xE2, CHR 0x80, CHR 0x88], [CHR 0xE2, CHR 0x80, CHR 0x89],
     [CHR 0xE2, CHR 0x80, CHR 0x8A],
     [CHR 0xE2, CHR 0x80, CHR 0xA8], [CHR 0xE2, CHR 0x80, CHR 0xA9],
     [CHR 0xE2, CHR 0x80, CHR 0xAF],
     [CHR 0xE2, CHR 0x81, CHR 0x9F],
     [CHR 0xE3, CHR 0x80, CHR 0x80]]"

function strip_leading :: "string list \<Rightarrow> string \<Rightarrow> string" where
  "strip_leading ws s =
     (case find (\<lambda>w. w \<noteq> [] \<and> prefix w s) ws of
        None \<Rightarrow> s
      | Some w \<Rightarrow> strip_leading ws (drop (length w) s))"
  by pat_completeness auto
termination
proof (relation "measure (\<lambda>(ws, s). length s)")
  show "wf (measure (\<lambda>(ws, s). length s))" by simp
next
  fix ws :: "string list" and s w :: string
  assume "find (\<lambda>w. w \<noteq> [] \<and> prefix w s) ws = Some w"
  then have "w \<noteq> []" and "prefix w s"
    by (auto simp: find_Some_iff)
  then have "length (drop (length w) s) < length s"
    by (cases w; cases s) auto
  then show "((ws, drop (length w) s), (ws, s)) \<in> measure (\<lambda>(ws, s). length s)"
    by simp
qed

definition TrimSpace :: "string \<Rightarrow> string" where
  "TrimSpace s =
     rev (strip_leading (map rev space_encodings) (rev (strip_leading space_encodings s)))"

section \<open>Content type detection\<close>

text \<open>
  \<open>detectContentType\<close> of \<open>lambdas.go\<close>: the body is trimmed, then five guarded
  returns are tried in the order of the source, and \<open>text/plain\<close> is the fall-through.
\<close>

definition detectContentType :: "string \<Rightarrow> string" where
  "detectContentType content0 =
     (let content = TrimSpace content0 in
      if HasPrefix content ''<!DOCTYPE html'' \<or>
         HasPrefix content ''<html'' \<or>
         Contains content ''<body'' \<or>
         Contains content ''<div'' \<or>
         Contains content ''<span''
      then ''text/html''
      else if (HasPrefix content ''{'' \<and> HasSuffix content ''}'') \<or>
              (HasPrefix content ''['' \<and> HasSuffix content '']'')
      then ''application/json''
      else if HasPrefix content ''<?xml'' \<or>
              (HasPrefix content ''<'' \<and> Contains content ''>'')
      then ''application/xml''
      else if Contains content ''{'' \<and> Contains content ''}'' \<and>
              (Contains content ''color:'' \<or> Contains content ''font-'' \<or>
               Contains content ''margin:'' \<or> Contains content ''padding:'')
      then ''text/css''
      else if Contains content ''function'' \<or> Contains content ''var '' \<or>
              Contains content ''let '' \<or> Contains content ''const '' \<or>
              Contains content ''console.log'' \<or> Contains content ''document.''
      then ''application/javascript''
      else ''text/plain'')"

subsection \<open>The classifier as the specification words it\<close>

text \<open>
  The specification lists the five clauses in order, each with the MIME string it
  yields, and says that the first matching clause wins and that \<open>text/plain\<close> is the
  default.  The clause list below follows that wording; \<open>spec_classifier\<close> searches it
  from the front.
\<close>

definition begins_with :: "string \<Rightarrow> string \<Rightarrow> bool" where
  "begins_with t x = (take (length x) t = x)"

definition ends_with :: "string \<Rightarrow> string \<Rightarrow> bool" where
  "ends_with t x = (drop (length t - length x) t = x)"

fun contains_text :: "string \<Rightarrow> string \<Rightarrow> bool" where
  "contains_text [] x = (x = [])"
| "contains_text (c # cs) x = (begins_with (c # cs) x \<or> contains_text cs x)"

definition spec_clauses :: "((string \<Rightarrow> bool) \<times> string) list" where
  "spec_clauses =
    [(\<lambda>t. begins_with t ''<!DOCTYPE html'' \<or> begins_with t ''<html'' \<or>
           contains_text t ''<body'' \<or> contains_text t ''<div'' \<or> contains_text t ''<span'',
      ''text/html''),
     (\<lambda>t. (begins_with t ''{'' \<and> ends_with t ''}'') \<or> (begins_with t ''['' \<and> ends_with t '']''),
      ''application/json''),
     (\<lambda>t. begins_with t ''<?xml'' \<or> (begins_with t ''<'' \<and> contains_text t ''>''),
      ''application/xml''),
     (\<lambda>t. (contains_text t ''{'' \<and> contains_text t ''}'') \<and>
           (contains_text t ''color:'' \<or> contains_text t ''font-'' \<or>
            contains_text t ''margin:'' \<or> contains_text t ''padding:''),
      ''text/css''),
     (\<lambda>t. contains_text t ''function'' \<or> contains_text t ''var '' \<or>
           contains_text t ''let '' \<or> contains_text t ''const '' \<or>
           contains_text t ''console.log'' \<or> contains_text t ''document.'',
      ''application/javascript'')]"

definition spec_classifier :: "string \<Rightarrow> string" where
  "spec_classifier body =
     (case find (\<lambda>cl. fst cl (TrimSpace body)) spec_clauses of
        None \<Rightarrow> ''text/plain''
      | Some cl \<Rightarrow> snd cl)"

definition classifier_mime_types :: "string list" where
  "classifier_mime_types =
     [''text/html'', ''application/json'', ''application/xml'', ''text/css'',
      ''application/javascript'', ''text/plain'']"

section \<open>Data model\<close>

subsection \<open>Dynamic Go values\<close>

text \<open>
  Values of Go's \<open>interface{}\<close> as \<open>encoding/json\<close> and the script engine's \<open>Export\<close>
  produce them.  A \<open>map[string]interface{}\<close> is an association list read with
  \<^const>\<open>map_of\<close>; a \<open>float64\<close> is a real number; nil of any type is \<open>GoNil\<close>.
\<close>

datatype go_value =
    GoNil
  | GoBool bool
  | GoInt int
  | GoFloat real
  | GoString string
  | GoSlice "go_value list"
  | GoMap "(string \<times> go_value) list"

text \<open>
  The dynamic type of \<open>LambdaFunctionExecutionResult.Output\<close>: the nil interface, a
  \<open>*goja.Object\<close> (carrying what its \<open>Export()\<close> returns), another \<open>goja.Value\<close> (a
  primitive, with its exported value), or a plain Go value.
\<close>

datatype exec_output =
    OutNil
  | OutGojaObject go_value
  | OutGojaValue go_value
  | OutGo go_value

text \<open>
  The conversion \<open>int(statusValue)\<close> of a \<open>float64\<close> to Go's 64-bit \<open>int\<close> truncates
  towards zero.  When the truncated value does not fit into 64 bits the result depends
  on the implementation; the model gives the least \<open>int64\<close>, as the conversion on amd64
  does.  (NaN and the infinities are not real numbers and have no counterpart here.)
\<close>

definition float64_to_int :: "real \<Rightarrow> int" where
  "float64_to_int x =
     (let truncated = (if x < 0 then - \<lfloor>- x\<rfloor> else \<lfloor>x\<rfloor>)
      in if - (2 ^ 63) \<le> truncated \<and> truncated < 2 ^ 63 then truncated else - (2 ^ 63))"

text \<open>The single-value type assertion \<open>m[k].(string)\<close>; \<open>None\<close> is the panic.\<close>

definition assert_string :: "(string \<times> go_value) list \<Rightarrow> string \<Rightarrow> string option" where
  "assert_string m k = (case map_of m k of Some (GoString s) \<Rightarrow> Some s | _ \<Rightarrow> None)"

text \<open>The two-value type assertion \<open>m[k].([]interface{})\<close>; \<open>None\<close> is \<open>ok == false\<close>.\<close>

definition assert_slice :: "(string \<times> go_value) list \<Rightarrow> string \<Rightarrow> go_value list option" where
  "assert_slice m k = (case map_of m k of Some (GoSlice xs) \<Rightarrow> Some xs | _ \<Rightarrow> None)"

text \<open>The two-value type assertion \<open>v.(map[string]interface{})\<close> on a value.\<close>

definition as_map :: "go_value \<Rightarrow> (string \<times> go_value) list option" where
  "as_map v = (case v of GoMap xs \<Rightarrow> Some xs | _ \<Rightarrow> None)"

text \<open>The two-value type assertion \<open>m[k].(map[string]interface{})\<close>.\<close>

definition assert_map ::
  "(string \<times> go_value) list \<Rightarrow> string \<Rightarrow> (string \<times> go_value) list option" where
  "assert_map m k = (case map_of m k of Some (GoMap xs) \<Rightarrow> Some xs | _ \<Rightarrow> None)"

subsection \<open>Records of the \<open>lambdas\<close> collection\<close>

text \<open>
  A \<open>core.Record\<close> of the \<open>lambdas\<close> collection, with the fields the plugin reads
  (\<open>function.Id\<close>, \<open>GetString("name")\<close>, \<open>GetBool("enabled")\<close>, \<open>GetString("code")\<close>,
  \<open>GetString("contentType")\<close>, \<open>GetString("env_vars")\<close>, \<open>GetString("triggers")\<close>) and the
  \<open>timeout\<close> field (milliseconds) of the collection, which the plugin never reads.
\<close>

record lambda_record =
  Id :: string
  fn_name :: string
  enabled :: bool
  fn_code :: string
  fn_timeout :: int
  contentType :: string
  env_vars :: string
  triggers :: string

subsection \<open>Registry entries\<close>

text \<open>
  The structs \<open>LambdaFunctionHTTPRoute\<close>, \<open>LambdaFunctionDBTrigger\<close>,
  \<open>LambdaFunctionCronJob\<close> and \<open>LambdaFunctionExecutionContext\<close> all have a field
  \<open>FunctionID\<close>; they extend one parent record so that the field keeps its name.  The
  \<open>Handler\<close> of a route is \<open>createHTTPHandler(FunctionID)\<close>, a closure fixed by the
  function id, so it is not stored.
\<close>

record registry_entry =
  FunctionID :: string

record LambdaFunctionHTTPRoute = registry_entry +
  Method :: string
  Path :: string

record LambdaFunctionDBTrigger = registry_entry +
  Collection :: string
  Event :: string

record LambdaFunctionCronJob = registry_entry +
  Schedule :: string
  JobID :: string

subsection \<open>Requests, responses and the script runtime\<close>

text \<open>
  An \<open>io.Reader\<close>: asked for at most \<open>n\<close> bytes, it yields the bytes read and whether
  the error is non-nil.
\<close>

type_synonym reader = "nat \<Rightarrow> string \<times> bool"

record http_request =
  req_Method :: string
  req_URL :: string
  req_Header :: "(string \<times> string list) list"
  req_Body :: "reader option"

text \<open>
  An \<open>http.ResponseWriter\<close>: the status is \<open>None\<close> until \<open>WriteHeader\<close> is called.
\<close>

record response =
  resp_status :: "int option"
  resp_header :: "(string \<times> string) list"
  resp_body :: string

record RequestEvent =
  ev_Request :: http_request
  ev_Response :: response
  ev_Now :: int

text \<open>
  \<open>StartTime\<close> is kept in Unix seconds, the only form in which the plugin passes it on
  (\<open>ctx.StartTime.Unix()\<close>).
\<close>

record LambdaFunctionExecutionContext = registry_entry +
  TriggerType :: string
  Request :: "http_request option"
  Response :: "response option"
  Record :: "go_value option"
  OldRecord :: "go_value option"
  Environment :: "(string \<times> string) list"
  StartTime :: int

text \<open>
  The result of an execution.  \<open>Duration\<close> (wall-clock time since \<open>StartTime\<close>) and
  \<open>Memory\<close> (never assigned) are left out.
\<close>

record LambdaFunctionExecutionResult =
  Success :: bool
  Output :: exec_output
  Error :: string

text \<open>
  The global object of a \<open>goja.Runtime\<close>: a map from global names to what is bound
  there.
\<close>

datatype binding =
    BApp
  | BTemplate
  | BEnv "(string \<times> string) list"
  | BTrigger string string int
  | BRequest string string "(string \<times> string list) list" string
  | BRecord go_value
  | BValue go_value

type_synonym vm = "string \<Rightarrow> binding option"

text \<open>
  What \<open>vm.RunString(code)\<close> does: the value and error it returns, the time (in
  nanoseconds) after which it returns, \<open>None\<close> when it never does, which case the
  \<open>select\<close> of \<open>executeWithContext\<close> takes when both channels are ready at once, and
  the globals of the runtime when the script is done.  The plugin never reads these
  globals; a \<open>BRecord\<close> among them is the Go object that the global refers to, in the
  state in which the script leaves it.
\<close>

record run_result =
  run_value :: exec_output
  run_error :: "string option"
  run_time :: "int option"
  run_tie_done :: bool
  run_globals :: vm

subsection \<open>Libraries and host\<close>

text \<open>
  Functions of Go's standard library, of the script engine and of the host that the
  plugin calls and whose code is not part of \<open>lambdas.go\<close>.  They are parameters of the
  model: every theorem below holds for each choice of them.
  \<^item> \<open>json_Unmarshal\<close>: \<open>json.Unmarshal\<close> into a \<open>map[string]interface{}\<close>, \<open>Inl\<close> is the error text;
  \<^item> \<open>env_Unmarshal\<close>: the contents of the \<open>map[string]string\<close> after \<open>json.Unmarshal\<close>
    (whose error \<open>setExecutionContext\<close> drops);
  \<^item> \<open>ToUpper\<close>: \<open>strings.ToUpper\<close>;
  \<^item> \<open>cron_valid\<close>: whether the scheduler accepts a cron expression (\<open>MustAdd\<close> panics otherwise);
  \<^item> \<open>base_globals\<close>: the globals of a new runtime after the \<open>Enable\<close> and \<open>...Binds\<close> calls of \<open>createVM\<close>;
  \<^item> \<open>RunString\<close>: the script engine;
  \<^item> \<open>Sprint_v\<close>: \<open>fmt.Sprintf("%v", value)\<close>;
  \<^item> \<open>CanonicalHeaderKey\<close>: the canonical form of a header name;
  \<^item> \<open>Errorf\<close>: \<open>fmt.Errorf\<close> applied to a format string alone;
  \<^item> \<open>json_Marshal\<close>: JSON serialisation, \<open>Inl\<close> is the error text;
  \<^item> \<open>CollectionNameLambdaFunctions\<close>: the constant \<open>core.CollectionNameLambdaFunctions\<close>.
\<close>

record lib =
  json_Unmarshal :: "string \<Rightarrow> string + (string \<times> go_value) list"
  env_Unmarshal :: "string \<Rightarrow> (string \<times> string) list"
  ToUpper :: "string \<Rightarrow> string"
  cron_valid :: "string \<Rightarrow> bool"
  base_globals :: vm
  RunString :: "vm \<Rightarrow> string \<Rightarrow> run_result"
  Sprint_v :: "go_value \<Rightarrow> string"
  CanonicalHeaderKey :: "string \<Rightarrow> string"
  Errorf :: "string \<Rightarrow> string"
  json_Marshal :: "exec_output \<Rightarrow> string + string"
  CollectionNameLambdaFunctions :: string

text \<open>
  The host application \<open>p.app\<close> at the time of a call: whether a collection exists, the
  records a filter query returns, and the lookup of a record by id (\<open>Inl\<close> is the error
  text).
\<close>

record app =
  FindCollectionByNameOrId :: "string \<Rightarrow> bool"
  FindRecordsByFilter :: "string \<Rightarrow> string \<Rightarrow> string + lambda_record list"
  FindRecordById :: "string \<Rightarrow> string \<Rightarrow> string + lambda_record"

subsection \<open>The plugin\<close>

text \<open>\<open>MaxExecutionTime\<close> is a \<open>time.Duration\<close>, in nanoseconds.\<close>

record LambdaFunctionPluginConfig =
  PoolSize :: int
  MaxExecutionTime :: int
  MaxMemory :: int
  OnInit :: "(vm \<Rightarrow> vm) option"

text \<open>
  The mutable state of a \<open>LambdaFunctionPlugin\<close>.  The three \<open>sync.Map\<close> tables are
  association lists with distinct keys.  The scheduler is the list of its jobs (job
  id and cron expression), the router the list of the routes attached to it (method,
  path, function id of the handler), \<open>None\<close> while \<open>p.router\<close> is nil.  \<open>error_log\<close>
  collects the messages the plugin hands to the host's logger at level Error; the
  other levels are not recorded.  The host \<open>p.app\<close> is passed to the functions that
  call it, as it is at the time of the call.  The pool \<open>executors\<close> is left out: no
  function of \<open>lambdas.go\<close> takes a runtime from it.  The template and require
  registries are opaque handles inside the runtime's globals.
\<close>

record LambdaFunctionPlugin =
  config :: LambdaFunctionPluginConfig
  scheduler :: "(string \<times> string) list"
  router :: "(string \<times> string \<times> string) list option"
  httpRoutes :: "(string, LambdaFunctionHTTPRoute) alist"
  dbTriggers :: "(string, LambdaFunctionDBTrigger list) alist"
  cronJobs :: "(string, LambdaFunctionCronJob) alist"
  error_log :: "string list"

text \<open>How a call ends: it returns nil, it returns an error, or it panics.\<close>

datatype outcome = Ok | Failed string | Panicked

definition and_then ::
  "LambdaFunctionPlugin \<times> outcome \<Rightarrow> (LambdaFunctionPlugin \<Rightarrow> LambdaFunctionPlugin \<times> outcome) \<Rightarrow>
   LambdaFunctionPlugin \<times> outcome" where
  "and_then r f = (case snd r of Ok \<Rightarrow> f (fst r) | _ \<Rightarrow> r)"

subsection \<open>\<open>sync.Map\<close>\<close>

definition Store :: "'k \<Rightarrow> 'v \<Rightarrow> ('k, 'v) alist \<Rightarrow> ('k, 'v) alist" where
  "Store k v m = DAList.update k v m"

definition Load :: "('k, 'v) alist \<Rightarrow> 'k \<Rightarrow> 'v option" where
  "Load m k = DAList.lookup m k"

definition Delete :: "'k \<Rightarrow> ('k, 'v) alist \<Rightarrow> ('k, 'v) alist" where
  "Delete k m = DAList.delete k m"

definition LoadOrStore :: "'k \<Rightarrow> 'v \<Rightarrow> ('k, 'v) alist \<Rightarrow> 'v \<times> ('k, 'v) alist" where
  "LoadOrStore k v m = (case Load m k of Some a \<Rightarrow> (a, m) | None \<Rightarrow> (v, Store k v m))"

definition LoadAndDelete :: "'k \<Rightarrow> ('k, 'v) alist \<Rightarrow> 'v option \<times> ('k, 'v) alist" where
  "LoadAndDelete k m = (Load m k, Delete k m)"

text \<open>
  \<open>Range\<close> calls the function once for each entry of the map; every callback of the
  plugin returns \<open>true\<close>.  The callback acts on a state \<open>s\<close>, which for the callbacks of
  \<open>handleFunctionDeleted\<close> is the very map that is ranged over.
\<close>

definition RangeMap :: "('k \<Rightarrow> 'v \<Rightarrow> 's \<Rightarrow> 's) \<Rightarrow> ('k, 'v) alist \<Rightarrow> 's \<Rightarrow> 's" where
  "RangeMap f m s = fold (\<lambda>kv. f (fst kv) (snd kv)) (DAList.impl_of m) s"

section \<open>The trigger registry\<close>

text \<open>
  \<open>RegisterLambdaFunctionPlugin\<close>: the defaults of the configuration and the initial
  state (\<open>cron.New()\<close>, no router, empty tables).
\<close>

definition RegisterLambdaFunctionPlugin :: "LambdaFunctionPluginConfig \<Rightarrow> LambdaFunctionPlugin" where
  "RegisterLambdaFunctionPlugin config0 =
     (let config1 = (if MaxExecutionTime config0 = 0
                     then config0\<lparr>MaxExecutionTime := 30 * 1000000000\<rparr> else config0);
          config2 = (if MaxMemory config1 = 0
                     then config1\<lparr>MaxMemory := 128 * 1024 * 1024\<rparr> else config1)
      in \<lparr>config = config2, scheduler = [], router = None,
          httpRoutes = DAList.empty, dbTriggers = DAList.empty, cronJobs = DAList.empty,
          error_log = []\<rparr>)"

definition registerHTTPTrigger ::
  "LambdaFunctionPlugin \<Rightarrow> string \<Rightarrow> string \<Rightarrow> string \<Rightarrow> LambdaFunctionPlugin" where
  "registerHTTPTrigger p functionID method path =
     (let routeKey = method @ '':'' @ path;
          route = \<lparr>FunctionID = functionID, Method = method, Path = path\<rparr>
      in p\<lparr>httpRoutes := Store routeKey route (httpRoutes p)\<rparr>)"

definition registerDatabaseTrigger ::
  "LambdaFunctionPlugin \<Rightarrow> string \<Rightarrow> string \<Rightarrow> string \<Rightarrow> LambdaFunctionPlugin" where
  "registerDatabaseTrigger p functionID collection event =
     (let trigger = \<lparr>FunctionID = functionID, Collection = collection, Event = event\<rparr>;
          key = collection @ '':'' @ event;
          loaded = LoadOrStore key [] (dbTriggers p);
          updatedTriggers = fst loaded @ [trigger]
      in p\<lparr>dbTriggers := Store key updatedTriggers (snd loaded)\<rparr>)"

text \<open>
  Modelled from the spec: the host scheduler, whose contract is
  \<open>add(id, cron-expression, callback)\<close> and \<open>remove(id)\<close>; the spec notes that several
  cron expressions of one function are separate scheduler jobs.
\<close>

definition scheduler_add :: "string \<Rightarrow> string \<Rightarrow> (string \<times> string) list \<Rightarrow> (string \<times> string) list" where
  "scheduler_add jobID schedule jobs = jobs @ [(jobID, schedule)]"

definition scheduler_remove :: "string \<Rightarrow> (string \<times> string) list \<Rightarrow> (string \<times> string) list" where
  "scheduler_remove jobID jobs = filter (\<lambda>j. fst j \<noteq> jobID) jobs"

definition registerCronTrigger ::
  "lib \<Rightarrow> LambdaFunctionPlugin \<Rightarrow> string \<Rightarrow> string \<Rightarrow> LambdaFunctionPlugin \<times> outcome" where
  "registerCronTrigger L p functionID schedule =
     (let jobID = ''lambda_function_'' @ functionID;
          job = \<lparr>FunctionID = functionID, Schedule = schedule, JobID = jobID\<rparr>
      in if \<not> cron_valid L schedule then (p, Panicked)
         else (p\<lparr>scheduler := scheduler_add jobID schedule (scheduler p),
                 cronJobs := Store functionID job (cronJobs p)\<rparr>, Ok))"

text \<open>The three loops of \<open>registerFunction\<close> over the trigger lists.\<close>

fun register_http_triggers ::
  "lib \<Rightarrow> string \<Rightarrow> go_value list \<Rightarrow> LambdaFunctionPlugin \<Rightarrow> LambdaFunctionPlugin \<times> outcome" where
  "register_http_triggers L functionID [] p = (p, Ok)"
| "register_http_triggers L functionID (trigger # rest) p =
     (case as_map trigger of
        Some httpTrigger \<Rightarrow>
          (case assert_string httpTrigger ''method'' of
             None \<Rightarrow> (p, Panicked)
           | Some m \<Rightarrow>
               (case assert_string httpTrigger ''path'' of
                  None \<Rightarrow> (p, Panicked)
                | Some path \<Rightarrow>
                    register_http_triggers L functionID rest
                      (registerHTTPTrigger p functionID (ToUpper L m) path)))
      | None \<Rightarrow> register_http_triggers L functionID rest p)"

fun register_db_triggers ::
  "string \<Rightarrow> go_value list \<Rightarrow> LambdaFunctionPlugin \<Rightarrow> LambdaFunctionPlugin \<times> outcome" where
  "register_db_triggers functionID [] p = (p, Ok)"
| "register_db_triggers functionID (trigger # rest) p =
     (case as_map trigger of
        Some dbTrigger \<Rightarrow>
          (case assert_string dbTrigger ''collection'' of
             None \<Rightarrow> (p, Panicked)
           | Some collection \<Rightarrow>
               (case assert_string dbTrigger ''event'' of
                  None \<Rightarrow> (p, Panicked)
                | Some event \<Rightarrow>
                    register_db_triggers functionID rest
                      (registerDatabaseTrigger p functionID collection event)))
      | None \<Rightarrow> register_db_triggers functionID rest p)"

fun register_cron_triggers ::
  "lib \<Rightarrow> string \<Rightarrow> go_value list \<Rightarrow> LambdaFunctionPlugin \<Rightarrow> LambdaFunctionPlugin \<times> outcome" where
  "register_cron_triggers L functionID [] p = (p, Ok)"
| "register_cron_triggers L functionID (trigger # rest) p =
     (case as_map trigger of
        Some cronTrigger \<Rightarrow>
          (case assert_string cronTrigger ''schedule'' of
             None \<Rightarrow> (p, Panicked)
           | Some schedule \<Rightarrow>
               and_then (registerCronTrigger L p functionID schedule)
                 (register_cron_triggers L functionID rest))
      | None \<Rightarrow> register_cron_triggers L functionID rest p)"

definition registerFunction ::
  "lib \<Rightarrow> LambdaFunctionPlugin \<Rightarrow> lambda_record \<Rightarrow> LambdaFunctionPlugin \<times> outcome" where
  "registerFunction L p function =
     (if \<not> enabled function then (p, Ok)
      else
        let functionID = Id function in
        case json_Unmarshal L (triggers function) of
          Inl err \<Rightarrow>
            (p\<lparr>error_log := error_log p @ [''Invalid trigger configuration'']\<rparr>,
             Failed (''invalid trigger configuration: '' @ err))
        | Inr triggerConfig \<Rightarrow>
            and_then
              (case assert_slice triggerConfig ''http'' of
                 Some httpTriggers \<Rightarrow> register_http_triggers L functionID httpTriggers p
               | None \<Rightarrow> (p, Ok))
              (\<lambda>p1. and_then
                 (case assert_slice triggerConfig ''database'' of
                    Some dbTrigs \<Rightarrow> register_db_triggers functionID dbTrigs p1
                  | None \<Rightarrow> (p1, Ok))
                 (\<lambda>p2. case assert_slice triggerConfig ''cron'' of
                    Some cronTriggers \<Rightarrow> register_cron_triggers L functionID cronTriggers p2
                  | None \<Rightarrow> (p2, Ok))))"

text \<open>
  \<open>registerHTTPRoutes\<close>: nothing while the router is nil; otherwise every route of the
  table is attached to the router, with its path verbatim.
\<close>

definition registerHTTPRoutes :: "LambdaFunctionPlugin \<Rightarrow> LambdaFunctionPlugin" where
  "registerHTTPRoutes p =
     (case router p of
        None \<Rightarrow> p
      | Some r \<Rightarrow>
          p\<lparr>router := Some (RangeMap
               (\<lambda>key route rt. rt @ [(Method route, Path route, FunctionID route)])
               (httpRoutes p) r)\<rparr>)"

text \<open>
  The loop of \<open>loadLambdaFunctions\<close>: an error of \<open>registerFunction\<close> is logged and the
  loop goes on; a panic leaves the loop.
\<close>

fun load_loop ::
  "lib \<Rightarrow> lambda_record list \<Rightarrow> LambdaFunctionPlugin \<Rightarrow> LambdaFunctionPlugin \<times> outcome" where
  "load_loop L [] p = (p, Ok)"
| "load_loop L (function # rest) p =
     (case registerFunction L p function of
        (p1, Panicked) \<Rightarrow> (p1, Panicked)
      | (p1, Failed err) \<Rightarrow>
          load_loop L rest (p1\<lparr>error_log := error_log p1 @ [''Failed to register lambda function'']\<rparr>)
      | (p1, Ok) \<Rightarrow> load_loop L rest p1)"

definition loadLambdaFunctions ::
  "lib \<Rightarrow> app \<Rightarrow> LambdaFunctionPlugin \<Rightarrow> LambdaFunctionPlugin \<times> outcome" where
  "loadLambdaFunctions L A p =
     (if \<not> FindCollectionByNameOrId A ''lambdas'' then (p, Ok)
      else
        case FindRecordsByFilter A ''lambdas'' ''enabled = true'' of
          Inl err \<Rightarrow> (p, Failed (''failed to load lambda functions: '' @ err))
        | Inr functions \<Rightarrow> load_loop L functions p)"

text \<open>
  The bootstrap hook that \<open>RegisterLambdaFunctionPlugin\<close> binds: load the functions,
  then register the HTTP routes.  This is the startup load-and-register sequence.
\<close>

definition OnBootstrap :: "lib \<Rightarrow> app \<Rightarrow> LambdaFunctionPlugin \<Rightarrow> LambdaFunctionPlugin \<times> outcome" where
  "OnBootstrap L A p = and_then (loadLambdaFunctions L A p) (\<lambda>p1. (registerHTTPRoutes p1, Ok))"

text \<open>
  The serve hook: \<open>p.router\<close> becomes the router of the serve event (given by the routes
  it already has) and the routes of the table are attached to it.
\<close>

definition OnServe ::
  "LambdaFunctionPlugin \<Rightarrow> (string \<times> string \<times> string) list \<Rightarrow> LambdaFunctionPlugin" where
  "OnServe p eventRouter = registerHTTPRoutes (p\<lparr>router := Some eventRouter\<rparr>)"

subsection \<open>Function lifecycle handlers\<close>

definition handleFunctionDeleted ::
  "LambdaFunctionPlugin \<Rightarrow> lambda_record \<Rightarrow> LambdaFunctionPlugin \<times> outcome" where
  "handleFunctionDeleted p record =
     (let functionID = Id record;
          routes = RangeMap
            (\<lambda>key route m. if FunctionID route = functionID then Delete key m else m)
            (httpRoutes p) (httpRoutes p);
          trigs = RangeMap
            (\<lambda>key triggers m.
               let filtered = filter (\<lambda>trigger. FunctionID trigger \<noteq> functionID) triggers
               in if length filtered = 0 then Delete key m else Store key filtered m)
            (dbTriggers p) (dbTriggers p);
          removed = LoadAndDelete functionID (cronJobs p)
      in (p\<lparr>httpRoutes := routes, dbTriggers := trigs, cronJobs := snd removed,
             scheduler := (case fst removed of
                             Some cronJob \<Rightarrow> scheduler_remove (JobID cronJob) (scheduler p)
                           | None \<Rightarrow> scheduler p)\<rparr>, Ok))"

definition handleFunctionCreated ::
  "lib \<Rightarrow> LambdaFunctionPlugin \<Rightarrow> lambda_record \<Rightarrow> LambdaFunctionPlugin \<times> outcome" where
  "handleFunctionCreated L p record =
     and_then (registerFunction L p record) (\<lambda>p1. (registerHTTPRoutes p1, Ok))"

definition handleFunctionUpdated ::
  "lib \<Rightarrow> LambdaFunctionPlugin \<Rightarrow> lambda_record \<Rightarrow> LambdaFunctionPlugin \<times> outcome" where
  "handleFunctionUpdated L p record =
     and_then (registerFunction L (fst (handleFunctionDeleted p record)) record)
       (\<lambda>p1. (registerHTTPRoutes p1, Ok))"

section \<open>The execution engine\<close>

subsection \<open>Reading the request body\<close>

text \<open>
  A \<open>[]byte\<close>: the backing array, whose length is the capacity, and the length of the
  slice.  \<open>make([]byte, n, c)\<close> allocates \<open>c\<close> zero bytes and gives a slice of length \<open>n\<close>.
\<close>

record byte_slice =
  backing :: string
  slice_len :: nat

definition make_bytes :: "nat \<Rightarrow> nat \<Rightarrow> byte_slice" where
  "make_bytes n c = \<lparr>backing = replicate c (CHR 0x00), slice_len = n\<rparr>"

text \<open>
  \<open>Read(p)\<close> stores at most \<open>len(p)\<close> bytes at the front of the backing array and
  returns their number and the error.  The slice header is passed by value: its
  length does not change.
\<close>

definition Read :: "reader \<Rightarrow> byte_slice \<Rightarrow> byte_slice \<times> nat \<times> bool" where
  "Read rd p =
     (let got = take (slice_len p) (fst (rd (slice_len p)))
      in (p\<lparr>backing := got @ drop (length got) (backing p)\<rparr>, length got, snd (rd (slice_len p))))"

text \<open>The conversion \<open>string(body)\<close>: the first \<open>len(body)\<close> bytes.\<close>

definition string_of_bytes :: "byte_slice \<Rightarrow> string" where
  "string_of_bytes b = take (slice_len b) (backing b)"

definition getRequestBody :: "http_request \<Rightarrow> string" where
  "getRequestBody r =
     (case req_Body r of
        None \<Rightarrow> ''''
      | Some rd \<Rightarrow>
          let body = make_bytes 0 1024;
              res = Read rd body
          in if snd (snd res) then '''' else string_of_bytes (fst res))"

subsection \<open>Runtime creation and context binding\<close>

definition createVM :: "lib \<Rightarrow> LambdaFunctionPlugin \<Rightarrow> vm" where
  "createVM L p =
     (let vm0 = base_globals L;
          vm1 = vm0(''$app'' \<mapsto> BApp);
          vm2 = vm1(''$template'' \<mapsto> BTemplate)
      in case OnInit (config p) of None \<Rightarrow> vm2 | Some init \<Rightarrow> init vm2)"

definition setExecutionContext ::
  "lib \<Rightarrow> vm \<Rightarrow> LambdaFunctionExecutionContext \<Rightarrow> lambda_record \<Rightarrow> vm" where
  "setExecutionContext L vm0 ctx function =
     (let env = (if env_vars function \<noteq> '''' then env_Unmarshal L (env_vars function) else []);
          vm1 = vm0(''$env'' \<mapsto> BEnv env);
          vm2 = vm1(''$trigger'' \<mapsto> BTrigger (TriggerType ctx) (fn_name function) (StartTime ctx));
          vm3 = (case Request ctx of
                   None \<Rightarrow> vm2
                 | Some r \<Rightarrow>
                     vm2(''$request'' \<mapsto>
                       BRequest (req_Method r) (req_URL r) (req_Header r) (getRequestBody r)))
      in case Record ctx of
           None \<Rightarrow> vm3
         | Some rec \<Rightarrow>
             (let vm4 = vm3(''$record'' \<mapsto> BRecord rec)
              in case OldRecord ctx of
                   None \<Rightarrow> vm4
                 | Some old \<Rightarrow> vm4(''$oldRecord'' \<mapsto> BRecord old)))"

subsection \<open>Evaluation under the deadline\<close>

text \<open>
  \<open>executeWithContext\<close>: the script runs on its own goroutine and \<open>select\<close> waits for
  the context's deadline or for the script, whichever comes first.  \<open>deadline\<close> is the
  duration given to \<open>context.WithTimeout\<close>, in nanoseconds.
\<close>

definition executeWithContext ::
  "lib \<Rightarrow> int \<Rightarrow> vm \<Rightarrow> string \<Rightarrow> exec_output \<times> string option" where
  "executeWithContext L deadline vm0 code =
     (let r = RunString L vm0 code in
      case run_time r of
        None \<Rightarrow> (OutNil, Some ''execution timeout'')
      | Some d \<Rightarrow>
          if deadline < d \<or> (deadline = d \<and> \<not> run_tie_done r)
          then (OutNil, Some ''execution timeout'')
          else (run_value r, run_error r))"

definition formatError :: "string option \<Rightarrow> string" where
  "formatError err = (case err of None \<Rightarrow> '''' | Some e \<Rightarrow> e)"

definition executeFunction ::
  "lib \<Rightarrow> app \<Rightarrow> LambdaFunctionPlugin \<Rightarrow> LambdaFunctionExecutionContext \<Rightarrow>
   LambdaFunctionExecutionResult" where
  "executeFunction L A p ctx =
     (case FindRecordById A ''lambdas'' (FunctionID ctx) of
        Inl err \<Rightarrow>
          \<lparr>Success = False, Output = OutNil, Error = ''Function not found: '' @ err\<rparr>
      | Inr function \<Rightarrow>
          if \<not> enabled function
          then \<lparr>Success = False, Output = OutNil, Error = ''Function is disabled''\<rparr>
          else
            let vm0 = createVM L p;
                vm1 = setExecutionContext L vm0 ctx function;
                res = executeWithContext L (MaxExecutionTime (config p)) vm1 (fn_code function)
            in \<lparr>Success = (snd res = None), Output = fst res, Error = formatError (snd res)\<rparr>)"

section \<open>The HTTP dispatcher and the response projector\<close>

text \<open>
  How a handler ends when it does not return nil: with an API error of the host
  (status, message, wrapped error text), with the error of the JSON encoder, or with
  a panic.
\<close>

datatype handler_error = ApiError int string string | EncodeError string | HandlerPanic string

text \<open>
  Modelled from the spec: the host's \<open>e.InternalServerError(message, err)\<close>, which the
  spec describes as a 500-class error.
\<close>

definition InternalServerError :: "string \<Rightarrow> string \<Rightarrow> handler_error" where
  "InternalServerError message err = ApiError 500 message err"

definition Header_Set :: "lib \<Rightarrow> string \<Rightarrow> string \<Rightarrow> response \<Rightarrow> response" where
  "Header_Set L key v r =
     r\<lparr>resp_header := AList.update (CanonicalHeaderKey L key) v (resp_header r)\<rparr>"

definition Header_Get :: "lib \<Rightarrow> response \<Rightarrow> string \<Rightarrow> string" where
  "Header_Get L r key =
     (case map_of (resp_header r) (CanonicalHeaderKey L key) of None \<Rightarrow> '''' | Some v \<Rightarrow> v)"

text \<open>
  \<open>WriteHeader\<close> of \<open>net/http\<close> panics when no status has been written yet and the
  code is not a three-digit number from 100 on.
\<close>

definition WriteHeader_panics :: "int \<Rightarrow> response \<Rightarrow> bool" where
  "WriteHeader_panics status r = (resp_status r = None \<and> (status < 100 \<or> 999 < status))"

text \<open>
  Otherwise \<open>WriteHeader\<close> fixes the status once; \<open>Write\<close> implies status 200 if none
  was set.
\<close>

definition WriteHeader :: "int \<Rightarrow> response \<Rightarrow> response" where
  "WriteHeader status r =
     (case resp_status r of None \<Rightarrow> r\<lparr>resp_status := Some status\<rparr> | Some s \<Rightarrow> r)"

definition Write :: "string \<Rightarrow> response \<Rightarrow> response" where
  "Write bytes r = (let r1 = WriteHeader 200 r in r1\<lparr>resp_body := resp_body r1 @ bytes\<rparr>)"

text \<open>
  Modelled from the spec: the host's \<open>e.JSON(status, value)\<close>, which the spec describes
  as the given status, \<open>Content-Type: application/json\<close> and the JSON serialisation of
  the value as body.
\<close>

definition event_JSON ::
  "lib \<Rightarrow> int \<Rightarrow> exec_output \<Rightarrow> response \<Rightarrow> handler_error option \<times> response" where
  "event_JSON L status v r =
     (case json_Marshal L v of
        Inl err \<Rightarrow> (Some (EncodeError err), r)
      | Inr text \<Rightarrow>
          (let r1 = Header_Set L ''Content-Type'' ''application/json'' r
           in if WriteHeader_panics status r1
              then (Some (HandlerPanic ''invalid WriteHeader code''), r1)
              else (None, Write text (WriteHeader status r1))))"

text \<open>
  The body of the handler closure after the call of \<open>executeFunction\<close>: the response
  projector.  \<open>responseMap\<close> is non-nil exactly when the output is a script object whose
  export is a map, or a Go map.
\<close>

definition responseMap_of :: "exec_output \<Rightarrow> (string \<times> go_value) list option" where
  "responseMap_of out =
     (case out of
        OutGojaObject exported \<Rightarrow> as_map exported
      | OutGo direct \<Rightarrow> as_map direct
      | _ \<Rightarrow> None)"

definition project_response ::
  "lib \<Rightarrow> app \<Rightarrow> string \<Rightarrow> RequestEvent \<Rightarrow> LambdaFunctionExecutionResult \<Rightarrow>
   handler_error option \<times> response" where
  "project_response L A functionID e result =
     (if \<not> Success result
      then (Some (InternalServerError ''Lambda function execution failed'' (Errorf L (Error result))),
            ev_Response e)
      else
        case responseMap_of (Output result) of
          Some responseMap \<Rightarrow>
            (let status = (case map_of responseMap ''status'' of
                             Some (GoFloat statusValue) \<Rightarrow> float64_to_int statusValue
                           | _ \<Rightarrow> 200);
                 resp1 = (case assert_map responseMap ''headers'' of
                            Some headers \<Rightarrow>
                              fold (\<lambda>kv r. Header_Set L (fst kv) (Sprint_v L (snd kv)) r)
                                headers (ev_Response e)
                          | None \<Rightarrow> ev_Response e)
             in case map_of responseMap ''body'' of
                  Some body \<Rightarrow>
                    (case body of
                       GoString bodyStr \<Rightarrow>
                         (let resp2 =
                            (if Header_Get L resp1 ''Content-Type'' = ''''
                             then Header_Set L ''Content-Type''
                                    (case FindRecordById A (CollectionNameLambdaFunctions L) functionID of
                                       Inr functionRecord \<Rightarrow>
                                         if contentType functionRecord \<noteq> '''' \<and>
                                            contentType functionRecord \<noteq> ''auto''
                                         then contentType functionRecord
                                         else detectContentType bodyStr
                                     | Inl err \<Rightarrow> ''text/plain'')
                                    resp1
                             else resp1)
                          in if WriteHeader_panics status resp2
                             then (Some (HandlerPanic ''invalid WriteHeader code''), resp2)
                             else (None, Write bodyStr (WriteHeader status resp2)))
                     | _ \<Rightarrow> event_JSON L status (OutGo body) resp1)
                | None \<Rightarrow>
                    if WriteHeader_panics status resp1
                    then (Some (HandlerPanic ''invalid WriteHeader code''), resp1)
                    else (None, WriteHeader status resp1))
        | None \<Rightarrow> event_JSON L 200 (Output result) (ev_Response e))"

text \<open>The invocation context that the handler closure builds from the request event.\<close>

definition http_context :: "string \<Rightarrow> RequestEvent \<Rightarrow> LambdaFunctionExecutionContext" where
  "http_context functionID e =
     \<lparr>FunctionID = functionID, TriggerType = ''http'',
      Request = Some (ev_Request e), Response = Some (ev_Response e),
      Record = None, OldRecord = None, Environment = [],
      StartTime = ev_Now e\<rparr>"

definition createHTTPHandler ::
  "lib \<Rightarrow> app \<Rightarrow> LambdaFunctionPlugin \<Rightarrow> string \<Rightarrow> RequestEvent \<Rightarrow>
   handler_error option \<times> response" where
  "createHTTPHandler L A p functionID e =
     (let ctx = http_context functionID e;
          result = executeFunction L A p ctx
      in project_response L A functionID e result)"

section \<open>The database dispatcher\<close>


text \<open>
  The run of the script in an execution: \<open>executeFunction\<close> starts the script of an
  existing, enabled function in the runtime that \<open>createVM\<close> makes and
  \<open>setExecutionContext\<close> fills; for a missing or disabled function no script runs.
\<close>

definition script_run ::
  "lib \<Rightarrow> app \<Rightarrow> LambdaFunctionPlugin \<Rightarrow> LambdaFunctionExecutionContext \<Rightarrow> run_result option" where
  "script_run L A p ctx =
     (case FindRecordById A ''lambdas'' (FunctionID ctx) of
        Inl err \<Rightarrow> None
      | Inr function \<Rightarrow>
          if \<not> enabled function then None
          else Some (RunString L (setExecutionContext L (createVM L p) ctx function)
                       (fn_code function)))"

text \<open>
  \<open>vm.Set\<close> binds the \<open>*core.Record\<close> of the context by reference.  The state of that
  Go object after a script is the one the script's runtime holds under the global
  name, if the global still refers to the object.
\<close>

definition object_after :: "run_result \<Rightarrow> string \<Rightarrow> go_value \<Rightarrow> go_value" where
  "object_after r name obj = (case run_globals r name of Some (BRecord v) \<Rightarrow> v | _ \<Rightarrow> obj)"

text \<open>
  The context that the loop of \<open>executeFunctionForDBEvent\<close> builds for a trigger.
  \<open>record\<close> and \<open>oldRecord\<close> are the two pointers of the event, the same for every
  trigger; \<open>oldRecord\<close> is the nil pointer (\<open>GoNil\<close>) for create and delete events,
  which as an \<open>interface{}\<close> is not nil.
\<close>

definition db_context ::
  "LambdaFunctionDBTrigger \<Rightarrow> go_value \<Rightarrow> go_value \<Rightarrow> int \<Rightarrow> LambdaFunctionExecutionContext" where
  "db_context trigger record oldRecord now =
     \<lparr>FunctionID = FunctionID trigger, TriggerType = ''database'',
      Request = None, Response = None,
      Record = Some record, OldRecord = Some oldRecord, Environment = [],
      StartTime = now\<rparr>"

text \<open>
  The goroutines that \<open>executeFunctionForDBEvent\<close> starts, one per context, running one
  after the other in the order of the list (they may run in any order).  All contexts
  point to the same two record objects, so each script finds the objects in the state
  in which the scripts before it left them; the runtime is made anew for each.  The
  results are returned in the order of the runs, with the final state of the two
  objects.  What a script does to the host through \<open>$app\<close> is not modelled.
\<close>

fun run_goroutines ::
  "lib \<Rightarrow> app \<Rightarrow> LambdaFunctionPlugin \<Rightarrow> LambdaFunctionExecutionContext list \<Rightarrow>
   go_value \<Rightarrow> go_value \<Rightarrow> LambdaFunctionExecutionResult list \<times> go_value \<times> go_value" where
  "run_goroutines L A p [] record oldRecord = ([], record, oldRecord)"
| "run_goroutines L A p (ctx # rest) record oldRecord =
     (let c = ctx\<lparr>Record := Some record, OldRecord := Some oldRecord\<rparr>;
          result = executeFunction L A p c;
          record1 = (case script_run L A p c of
                       None \<Rightarrow> record
                     | Some r \<Rightarrow> object_after r ''$record'' record);
          oldRecord1 = (case script_run L A p c of
                          None \<Rightarrow> oldRecord
                        | Some r \<Rightarrow> object_after r ''$oldRecord'' oldRecord);
          later = run_goroutines L A p rest record1 oldRecord1
      in (result # fst later, snd later))"

text \<open>
  \<open>executeFunctionForDBEvent\<close> looks up the bucket of the collection and the event and
  starts one goroutine per trigger of the bucket.  The Go function itself returns nil
  at once; the value here is what its goroutines produce.  \<open>collection\<close> stands for
  \<open>record.Collection().Name\<close> and \<open>now\<close> for \<open>time.Now()\<close>; the logging of a failed
  result is not modelled.
\<close>

definition executeFunctionForDBEvent ::
  "lib \<Rightarrow> app \<Rightarrow> LambdaFunctionPlugin \<Rightarrow> string \<Rightarrow> go_value \<Rightarrow> go_value \<Rightarrow> string \<Rightarrow> int \<Rightarrow>
   LambdaFunctionExecutionResult list \<times> go_value \<times> go_value" where
  "executeFunctionForDBEvent L A p collection record oldRecord event now =
     (let key = collection @ '':'' @ event
      in case Load (dbTriggers p) key of
           None \<Rightarrow> ([], record, oldRecord)
         | Some subscribed \<Rightarrow>
             run_goroutines L A p
               (map (\<lambda>trigger. db_context trigger record oldRecord now) subscribed)
               record oldRecord)"

section \<open>Lifecycle of the plugin state\<close>

text \<open>
  The states the plugin can be in: the initial state of \<open>RegisterLambdaFunctionPlugin\<close>
  and the states after each hook that \<open>registerLifecycleHooks\<close> and
  \<open>RegisterLambdaFunctionPlugin\<close> bind (bootstrap, serve, and create, update, delete of
  a record of the \<open>lambdas\<close> collection).  The state after a hook that panicked is the
  state at the panic.
\<close>

inductive reachable :: "lib \<Rightarrow> LambdaFunctionPlugin \<Rightarrow> bool" for L :: lib where
  start: "reachable L (RegisterLambdaFunctionPlugin cfg)"
| bootstrap: "reachable L p \<Longrightarrow> reachable L (fst (OnBootstrap L A p))"
| serve: "reachable L p \<Longrightarrow> reachable L (OnServe p eventRouter)"
| created: "reachable L p \<Longrightarrow> reachable L (fst (handleFunctionCreated L p record))"
| updated: "reachable L p \<Longrightarrow> reachable L (fst (handleFunctionUpdated L p record))"
| deleted: "reachable L p \<Longrightarrow> reachable L (fst (handleFunctionDeleted p record))"

text \<open>The list stored in the DB trigger table under a key, empty when the key is absent.\<close>

definition bucket :: "LambdaFunctionPlugin \<Rightarrow> string \<Rightarrow> LambdaFunctionDBTrigger list" where
  "bucket p key = (case Load (dbTriggers p) key of None \<Rightarrow> [] | Some ts \<Rightarrow> ts)"

text \<open>Every cron job entry is stored under its own function id.\<close>

definition cron_keyed :: "LambdaFunctionPlugin \<Rightarrow> bool" where
  "cron_keyed p = list_all (\<lambda>kv. FunctionID (snd kv) = fst kv) (DAList.impl_of (cronJobs p))"

subsection \<open>Registration as a sequence of calls\<close>

text \<open>
  The calls by which \<open>registerFunction\<close> and \<open>loadLambdaFunctions\<close> change the state:
  the three \<open>register...Trigger\<close> functions (the cron one with an expression the
  scheduler accepts) and the Error-level log.  They serve to state what a run of these
  functions does to the state.
\<close>

datatype call =
    CallHTTP string string string
  | CallDB string string string
  | CallCron string string
  | CallLog string

fun apply_call :: "call \<Rightarrow> LambdaFunctionPlugin \<Rightarrow> LambdaFunctionPlugin" where
  "apply_call (CallHTTP functionID method path) p = registerHTTPTrigger p functionID method path"
| "apply_call (CallDB functionID collection event) p =
     registerDatabaseTrigger p functionID collection event"
| "apply_call (CallCron functionID schedule) p =
     p\<lparr>scheduler := scheduler_add (''lambda_function_'' @ functionID) schedule (scheduler p),
       cronJobs := Store functionID
         \<lparr>FunctionID = functionID, Schedule = schedule,
          JobID = ''lambda_function_'' @ functionID\<rparr> (cronJobs p)\<rparr>"
| "apply_call (CallLog message) p = p\<lparr>error_log := error_log p @ [message]\<rparr>"

definition apply_calls :: "call list \<Rightarrow> LambdaFunctionPlugin \<Rightarrow> LambdaFunctionPlugin" where
  "apply_calls calls p = fold apply_call calls p"

section \<open>Concrete instances\<close>

text \<open>
  A library instance, a host and inputs on which the model is evaluated.  The JSON
  parser and the script engine of the instance are tables: they list what
  \<open>json.Unmarshal\<close> and the engine return on the texts used below.
\<close>

definition ping_triggers :: string where
  "ping_triggers = ''{\"http\":[{\"method\":\"get\",\"path\":\"/ping\"}]}''"

definition audit_triggers :: string where
  "audit_triggers =
     ''{\"database\":[{\"collection\":\"posts\",\"event\":\"create\"}],\"cron\":[{\"schedule\":\"*/1 * * * *\"}]}''"

definition example_Unmarshal :: "string \<Rightarrow> string + (string \<times> go_value) list" where
  "example_Unmarshal text =
     (if text = ping_triggers
      then Inr [(''http'', GoSlice [GoMap [(''method'', GoString ''get''), (''path'', GoString ''/ping'')]])]
      else if text = audit_triggers
      then Inr [(''database'', GoSlice [GoMap [(''collection'', GoString ''posts''),
                                                (''event'', GoString ''create'')]]),
                (''cron'', GoSlice [GoMap [(''schedule'', GoString ''*/1 * * * *'')]])]
      else if text = ''{}'' then Inr []
      else Inl ''invalid character'')"

definition ascii_upper :: "char \<Rightarrow> char" where
  "ascii_upper c =
     (if (97::nat) \<le> of_char c \<and> of_char c \<le> (122::nat)
      then char_of (of_char c - (32::nat)) else c)"

definition slow_code :: string where
  "slow_code = ''const t = Date.now(); while (Date.now() - t < 5000) {}; 1''"

definition example_RunString :: "vm \<Rightarrow> string \<Rightarrow> run_result" where
  "example_RunString vm0 code =
     (if code = ''({pong:true})''
      then \<lparr>run_value = OutGojaObject (GoMap [(''pong'', GoBool True)]), run_error = None,
            run_time = Some 1000000, run_tie_done = True, run_globals = vm0\<rparr>
      else if code = ''globalThis.x = 1; x''
      then \<lparr>run_value = OutGojaValue (GoInt 1), run_error = None,
            run_time = Some 1000000, run_tie_done = True,
            run_globals = vm0(''x'' \<mapsto> BValue (GoInt 1))\<rparr>
      else if code = ''typeof x''
      then \<lparr>run_value = OutGojaValue (GoString (if vm0 ''x'' = None then ''undefined'' else ''number'')),
            run_error = None, run_time = Some 1000000, run_tie_done = True, run_globals = vm0\<rparr>
      else if code = slow_code
      then \<lparr>run_value = OutGojaValue (GoInt 1), run_error = None,
            run_time = Some 5000000000, run_tie_done = True, run_globals = vm0\<rparr>
      else if code = ''while(true){}''
      then \<lparr>run_value = OutNil, run_error = None, run_time = None, run_tie_done = True, run_globals = vm0\<rparr>
      else \<lparr>run_value = OutNil, run_error = Some ''SyntaxError'', run_time = Some 0,
            run_tie_done = True, run_globals = vm0\<rparr>)"

definition example_lib :: lib where
  "example_lib =
     \<lparr>json_Unmarshal = example_Unmarshal,
      env_Unmarshal = (\<lambda>text. []),
      ToUpper = map ascii_upper,
      cron_valid = (\<lambda>schedule. schedule = ''*/1 * * * *''),
      base_globals = Map.empty,
      RunString = example_RunString,
      Sprint_v = (\<lambda>v. case v of GoString s \<Rightarrow> s | _ \<Rightarrow> ''''),
      CanonicalHeaderKey = (\<lambda>key. key),
      Errorf = (\<lambda>format. format),
      json_Marshal = (\<lambda>v. if v = OutGojaObject (GoMap [(''pong'', GoBool True)])
                            then Inr ''{\"pong\":true}'' else Inl ''unsupported value''),
      CollectionNameLambdaFunctions = ''lambdas''\<rparr>"

definition ping_fn :: lambda_record where
  "ping_fn = \<lparr>Id = ''fn_ping'', fn_name = ''ping'', enabled = True, fn_code = ''({pong:true})'',
              fn_timeout = 1000, contentType = ''auto'', env_vars = '''', triggers = ping_triggers\<rparr>"

definition audit_fn :: lambda_record where
  "audit_fn = \<lparr>Id = ''fn_audit'', fn_name = ''audit'', enabled = True, fn_code = ''typeof x'',
               fn_timeout = 1000, contentType = '''', env_vars = '''', triggers = audit_triggers\<rparr>"

definition slow_fn :: lambda_record where
  "slow_fn = \<lparr>Id = ''fn_slow'', fn_name = ''slow'', enabled = True, fn_code = slow_code,
              fn_timeout = 1000, contentType = '''', env_vars = '''', triggers = ''{}''\<rparr>"

definition setter_fn :: lambda_record where
  "setter_fn = \<lparr>Id = ''fn_set'', fn_name = ''set'', enabled = True, fn_code = ''globalThis.x = 1; x'',
                fn_timeout = 1000, contentType = '''', env_vars = '''', triggers = ''{}''\<rparr>"

definition loop_fn :: lambda_record where
  "loop_fn = \<lparr>Id = ''fn_loop'', fn_name = ''loop'', enabled = True, fn_code = ''while(true){}'',
              fn_timeout = 1000, contentType = '''', env_vars = '''', triggers = ''{}''\<rparr>"

definition broken_fn :: lambda_record where
  "broken_fn = \<lparr>Id = ''fn_broken'', fn_name = ''broken'', enabled = True, fn_code = ''1'',
                fn_timeout = 1000, contentType = '''', env_vars = '''', triggers = ''not json''\<rparr>"

definition disabled_fn :: lambda_record where
  "disabled_fn = ping_fn\<lparr>Id := ''fn_off'', enabled := False\<rparr>"

definition example_records :: "lambda_record list" where
  "example_records = [ping_fn, audit_fn, slow_fn, setter_fn, loop_fn, disabled_fn]"

definition example_app :: app where
  "example_app =
     \<lparr>FindCollectionByNameOrId = (\<lambda>name. name = ''lambdas''),
      FindRecordsByFilter = (\<lambda>collection flt.
        if collection = ''lambdas'' \<and> flt = ''enabled = true''
        then Inr (filter enabled example_records) else Inl ''unknown collection''),
      FindRecordById = (\<lambda>collection ident.
        case find (\<lambda>r. Id r = ident) example_records of
          Some r \<Rightarrow> if collection = ''lambdas'' then Inr r else Inl ''sql: no rows in result set''
        | None \<Rightarrow> Inl ''sql: no rows in result set'')\<rparr>"

definition example_plugin :: LambdaFunctionPlugin where
  "example_plugin =
     RegisterLambdaFunctionPlugin
       \<lparr>PoolSize = 0, MaxExecutionTime = 0, MaxMemory = 0, OnInit = None\<rparr>"

text \<open>A request \<open>GET /ping\<close> without entity, and a request whose entity is \<open>hello\<close>.\<close>

definition ping_event :: RequestEvent where
  "ping_event =
     \<lparr>ev_Request = \<lparr>req_Method = ''GET'', req_URL = ''/ping'', req_Header = [],
                     req_Body = Some (\<lambda>n. ('''', True))\<rparr>,
      ev_Response = \<lparr>resp_status = None, resp_header = [], resp_body = ''''\<rparr>,
      ev_Now = 0\<rparr>"

definition hello_request :: http_request where
  "hello_request =
     \<lparr>req_Method = ''POST'', req_URL = ''/ping'', req_Header = [],
      req_Body = Some (\<lambda>n. (take n ''hello'', False))\<rparr>"

definition example_ctx :: "string \<Rightarrow> LambdaFunctionExecutionContext" where
  "example_ctx functionID =
     \<lparr>FunctionID = functionID, TriggerType = ''cron'', Request = None, Response = None,
      Record = None, OldRecord = None, Environment = [], StartTime = 0\<rparr>"

text \<open>
  The state after the create handler has run for \<open>ping_fn\<close> and then for \<open>audit_fn\<close>,
  and the two bootstrap runs on a host whose only function is \<open>audit_fn\<close>.
\<close>

definition registered_state :: LambdaFunctionPlugin where
  "registered_state =
     fst (handleFunctionCreated example_lib
            (fst (handleFunctionCreated example_lib example_plugin ping_fn)) audit_fn)"

definition audit_app :: app where
  "audit_app =
     \<lparr>FindCollectionByNameOrId = (\<lambda>name. name = ''lambdas''),
      FindRecordsByFilter = (\<lambda>collection flt. Inr [audit_fn]),
      FindRecordById = (\<lambda>collection ident.
        if ident = ''fn_audit'' then Inr audit_fn else Inl ''sql: no rows in result set'')\<rparr>"

definition audit_trigger :: LambdaFunctionDBTrigger where
  "audit_trigger = \<lparr>FunctionID = ''fn_audit'', Collection = ''posts'', Event = ''create''\<rparr>"

definition audit_job :: LambdaFunctionCronJob where
  "audit_job = \<lparr>FunctionID = ''fn_audit'', Schedule = ''*/1 * * * *'',
                JobID = ''lambda_function_fn_audit''\<rparr>"

definition ping_route :: LambdaFunctionHTTPRoute where
  "ping_route = \<lparr>FunctionID = ''fn_ping'', Method = ''GET'', Path = ''/ping''\<rparr>"













section \<open>Properties of the content type classifier\<close>

lemma begins_with_prefix: "begins_with t x = HasPrefix t x"
  unfolding begins_with_def HasPrefix_def
  by (metis prefix_def append_take_drop_id append_eq_conv_conj)

lemma ends_with_suffix: "ends_with t x = HasSuffix t x"
  unfolding ends_with_def HasSuffix_def
  by (metis suffix_def append_eq_conv_conj length_append diff_add_inverse2 suffix_drop)

lemma contains_text_sublist: "contains_text t x = Contains t x"
  by (induction t) (auto simp: Contains_def begins_with_prefix HasPrefix_def sublist_Cons_right)

lemma first_clause_chain:
  "(case find (\<lambda>cl. fst cl t) [(p1, m1), (p2, m2), (p3, m3), (p4, m4), (p5, m5)] of
      None \<Rightarrow> d | Some cl \<Rightarrow> snd cl) =
   (if p1 t then m1 else if p2 t then m2 else if p3 t then m3 else if p4 t then m4
    else if p5 t then m5 else d)"
  by simp

text \<open>
  Claim C5.  The content type classifier is total and ordered: on every body it returns
  one of the six MIME strings of the classifier, its result is the one of the first
  clause (HTML, JSON, XML, CSS, JavaScript, in this order) that matches the trimmed
  body, \<open>text/plain\<close> when none does, and the body of scenario S8 is classified as
  \<open>text/css\<close>.
\<close>

theorem detectContentType_total_ordered:
  "detectContentType body \<in> set classifier_mime_types \<and>
   detectContentType body = spec_classifier body \<and>
   detectContentType ''body { color: #333; margin: 0; }'' = ''text/css''"
proof -
  have total: "detectContentType body \<in> set classifier_mime_types"
    by (simp add: detectContentType_def classifier_mime_types_def Let_def)
  have ordered: "detectContentType body = spec_classifier body"
    unfolding detectContentType_def spec_classifier_def spec_clauses_def Let_def
      first_clause_chain begins_with_prefix ends_with_suffix contains_text_sublist
    by (simp only: conj_assoc)
  have s8: "detectContentType ''body { color: #333; margin: 0; }'' = ''text/css''"
    by code_simp
  from total ordered s8 show ?thesis by blast
qed

section \<open>Properties of the execution engine and the HTTP dispatcher\<close>

lemma getRequestBody_Nil: "getRequestBody r = ''''"
  by (simp add: getRequestBody_def make_bytes_def Read_def string_of_bytes_def Let_def
      split: option.split)

text \<open>
  Claim C3.  The claim asks that \<open>$request.body\<close> equals a non-empty request entity
  smaller than one buffer.  \<open>getRequestBody\<close> reads into a slice of length zero, so it
  returns the empty string for every request, and the \<open>$request\<close> bound for a request
  with entity \<open>hello\<close> has the empty string as body.
\<close>

theorem getRequestBody_drops_entity:
  "getRequestBody r = '''' \<and>
   getRequestBody hello_request = '''' \<and>
   setExecutionContext L vm0 (http_context functionID (e\<lparr>ev_Request := hello_request\<rparr>)) function
     ''$request'' = Some (BRequest ''POST'' ''/ping'' [] '''')"
  by (simp add: getRequestBody_Nil setExecutionContext_def http_context_def hello_request_def Let_def)

lemma example_find_ping: "FindRecordById example_app ''lambdas'' ''fn_ping'' = Inr ping_fn"
  by (simp add: example_app_def example_records_def ping_fn_def)

lemma example_deadline: "MaxExecutionTime (config example_plugin) = 30000000000"
  by (simp add: example_plugin_def RegisterLambdaFunctionPlugin_def)

lemma bare_object_projection:
  assumes "Success result" and "responseMap_of (Output result) = Some m"
    and "map_of m ''status'' = None" and "map_of m ''headers'' = None"
    and "map_of m ''body'' = None"
  shows "project_response L A functionID e result = (None, WriteHeader 200 (ev_Response e))"
  using assms by (simp add: project_response_def assert_map_def WriteHeader_panics_def)

text \<open>
  Claim C1.  The claim asks that a returned object with none of the keys \<open>status\<close>,
  \<open>headers\<close>, \<open>body\<close> is answered with status 200 and its JSON serialisation as body.
  The projector treats every returned object as a response descriptor: for the result
  \<open>{pong: true}\<close> it writes status 200 and no body, whatever the libraries and the
  host are, and so does the handler of the function \<open>fn_ping\<close> on \<open>GET /ping\<close>.
\<close>

theorem bare_object_payload_gets_no_body:
  "project_response L A functionID e
     \<lparr>Success = True, Output = OutGojaObject (GoMap [(''pong'', GoBool True)]), Error = ''''\<rparr>
     = (None, WriteHeader 200 (ev_Response e)) \<and>
   createHTTPHandler example_lib example_app example_plugin ''fn_ping'' ping_event
     = (None, \<lparr>resp_status = Some 200, resp_header = [], resp_body = ''''\<rparr>)"
proof -
  have run: "executeFunction example_lib example_app example_plugin (http_context ''fn_ping'' ping_event)
     = \<lparr>Success = True, Output = OutGojaObject (GoMap [(''pong'', GoBool True)]), Error = ''''\<rparr>"
    by (simp add: executeFunction_def example_find_ping example_deadline http_context_def
        executeWithContext_def formatError_def Let_def)
       (simp add: ping_fn_def example_lib_def example_RunString_def)
  have proj: "project_response L A functionID e
     \<lparr>Success = True, Output = OutGojaObject (GoMap [(''pong'', GoBool True)]), Error = ''''\<rparr>
     = (None, WriteHeader 200 (ev_Response e))" for L A functionID e
    by (rule bare_object_projection [where m = "[(''pong'', GoBool True)]"])
       (simp_all add: responseMap_of_def as_map_def)
  have "createHTTPHandler example_lib example_app example_plugin ''fn_ping'' ping_event
     = (None, WriteHeader 200 (ev_Response ping_event))"
    by (simp add: createHTTPHandler_def run proj)
  then show ?thesis
    by (simp add: proj WriteHeader_def ping_event_def)
qed

lemma example_find_missing:
  "FindRecordById example_app ''lambdas'' ''fn_missing'' = Inl ''sql: no rows in result set''"
  by (simp add: example_app_def example_records_def ping_fn_def audit_fn_def slow_fn_def
      setter_fn_def loop_fn_def disabled_fn_def)

lemma example_find_disabled: "FindRecordById example_app ''lambdas'' ''fn_off'' = Inr disabled_fn"
  by (simp add: example_app_def example_records_def ping_fn_def audit_fn_def slow_fn_def
      setter_fn_def loop_fn_def disabled_fn_def)

text \<open>
  Claim C8, as stated, fails on the error texts: for a missing function the engine
  returns \<open>Function not found:\<close> followed by the text of the lookup error, and for a
  disabled one \<open>Function is disabled\<close>, not the lower-case texts of the claim.
\<close>

theorem execute_error_text_counterexample:
  "executeFunction example_lib example_app example_plugin (example_ctx ''fn_missing'')
     \<noteq> \<lparr>Success = False, Output = OutNil, Error = ''function not found''\<rparr> \<and>
   executeFunction example_lib example_app example_plugin (example_ctx ''fn_off'')
     \<noteq> \<lparr>Success = False, Output = OutNil, Error = ''function is disabled''\<rparr>"
  by (simp add: executeFunction_def example_ctx_def example_find_missing example_find_disabled
      disabled_fn_def)

text \<open>
  Claim C8, amended.  If the lookup of the function fails with error text \<open>err\<close>, the
  engine returns \<open>Success = False\<close> with error \<open>Function not found: err\<close>; if the
  function exists and is disabled, it returns \<open>Success = False\<close> with error
  \<open>Function is disabled\<close>; and whenever the execution is not successful the HTTP handler
  writes nothing and returns the host's internal server error (status 500) with message
  \<open>Lambda function execution failed\<close>, wrapping the engine's error text.
\<close>

theorem execute_missing_or_disabled:
  "(FindRecordById A ''lambdas'' (FunctionID ctx) = Inl err \<longrightarrow>
      executeFunction L A p ctx =
        \<lparr>Success = False, Output = OutNil, Error = ''Function not found: '' @ err\<rparr>) \<and>
   (FindRecordById A ''lambdas'' (FunctionID ctx) = Inr function \<and> \<not> enabled function \<longrightarrow>
      executeFunction L A p ctx =
        \<lparr>Success = False, Output = OutNil, Error = ''Function is disabled''\<rparr>) \<and>
   (\<not> Success (executeFunction L A p (http_context functionID e)) \<longrightarrow>
      createHTTPHandler L A p functionID e =
        (Some (ApiError 500 ''Lambda function execution failed''
                 (Errorf L (Error (executeFunction L A p (http_context functionID e))))),
         ev_Response e))"
  by (simp add: executeFunction_def createHTTPHandler_def project_response_def
      InternalServerError_def Let_def)

theorem execute_missing_or_disabled_witness:
  "executeFunction example_lib example_app example_plugin (example_ctx ''fn_missing'') =
     \<lparr>Success = False, Output = OutNil,
      Error = ''Function not found: sql: no rows in result set''\<rparr> \<and>
   executeFunction example_lib example_app example_plugin (example_ctx ''fn_off'') =
     \<lparr>Success = False, Output = OutNil, Error = ''Function is disabled''\<rparr> \<and>
   createHTTPHandler example_lib example_app example_plugin ''fn_off'' ping_event =
     (Some (ApiError 500 ''Lambda function execution failed'' ''Function is disabled''),
      ev_Response ping_event)"
proof -
  have missing: "FindRecordById example_app ''lambdas'' (FunctionID (example_ctx ''fn_missing''))
      = Inl ''sql: no rows in result set''"
    by (simp add: example_ctx_def example_find_missing)
  have off: "FindRecordById example_app ''lambdas'' (FunctionID (example_ctx ''fn_off''))
      = Inr disabled_fn \<and> \<not> enabled disabled_fn"
    by (simp add: example_ctx_def example_find_disabled disabled_fn_def)
  have off_http: "FindRecordById example_app ''lambdas'' (FunctionID (http_context ''fn_off'' ping_event))
      = Inr disabled_fn \<and> \<not> enabled disabled_fn"
    by (simp add: http_context_def example_find_disabled disabled_fn_def)
  note a = execute_missing_or_disabled [of example_app "example_ctx ''fn_missing''"
      "''sql: no rows in result set''" example_lib example_plugin disabled_fn "''fn_off''" ping_event]
  note b = execute_missing_or_disabled [of example_app "example_ctx ''fn_off''"
      "''x''" example_lib example_plugin disabled_fn "''fn_off''" ping_event]
  note c = execute_missing_or_disabled [of example_app "http_context ''fn_off'' ping_event"
      "''x''" example_lib example_plugin disabled_fn "''fn_off''" ping_event]
  from a missing have r1: "executeFunction example_lib example_app example_plugin (example_ctx ''fn_missing'') =
     \<lparr>Success = False, Output = OutNil,
      Error = ''Function not found: sql: no rows in result set''\<rparr>"
    by simp
  from b off have r2: "executeFunction example_lib example_app example_plugin (example_ctx ''fn_off'') =
     \<lparr>Success = False, Output = OutNil, Error = ''Function is disabled''\<rparr>"
    by blast
  from c off_http have r3: "executeFunction example_lib example_app example_plugin (http_context ''fn_off'' ping_event) =
     \<lparr>Success = False, Output = OutNil, Error = ''Function is disabled''\<rparr>"
    by blast
  from c r3 have "createHTTPHandler example_lib example_app example_plugin ''fn_off'' ping_event =
     (Some (ApiError 500 ''Lambda function execution failed'' ''Function is disabled''),
      ev_Response ping_event)"
    by (simp add: example_lib_def)
  with r1 r2 show ?thesis by blast
qed

lemma example_find_slow: "FindRecordById example_app ''lambdas'' ''fn_slow'' = Inr slow_fn"
  by (simp add: example_app_def example_records_def ping_fn_def audit_fn_def slow_fn_def)

lemma example_find_loop: "FindRecordById example_app ''lambdas'' ''fn_loop'' = Inr loop_fn"
  by (simp add: example_app_def example_records_def ping_fn_def audit_fn_def slow_fn_def
      setter_fn_def loop_fn_def)

lemma example_run_slow:
  "RunString example_lib vm0 (fn_code slow_fn) =
     \<lparr>run_value = OutGojaValue (GoInt 1), run_error = None, run_time = Some 5000000000,
      run_tie_done = True, run_globals = vm0\<rparr>"
  by (simp add: example_lib_def example_RunString_def slow_fn_def) (simp add: slow_code_def)

lemma example_run_loop:
  "RunString example_lib vm0 (fn_code loop_fn) =
     \<lparr>run_value = OutNil, run_error = None, run_time = None,
      run_tie_done = True, run_globals = vm0\<rparr>"
  by (simp add: example_lib_def example_RunString_def loop_fn_def) (simp add: slow_code_def)

text \<open>
  Claim C2, as stated, fails on the deadline: the function \<open>fn_slow\<close> has a configured
  timeout of 1000 ms and its script runs for 5 s, yet the execution succeeds, because
  the deadline is the plugin's \<open>MaxExecutionTime\<close> (30 s here), not the function's timeout.
\<close>

theorem per_function_timeout_counterexample:
  "FindRecordById example_app ''lambdas'' ''fn_slow'' = Inr slow_fn \<and>
   enabled slow_fn \<and>
   fn_timeout slow_fn = 1000 \<and>
   run_time (RunString example_lib
     (setExecutionContext example_lib (createVM example_lib example_plugin)
        (example_ctx ''fn_slow'') slow_fn) (fn_code slow_fn)) = Some 5000000000 \<and>
   fn_timeout slow_fn * 1000000 < 5000000000 \<and>
   executeFunction example_lib example_app example_plugin (example_ctx ''fn_slow'') =
     \<lparr>Success = True, Output = OutGojaValue (GoInt 1), Error = ''''\<rparr>"
  by (simp add: example_find_slow example_run_slow executeFunction_def executeWithContext_def
      example_ctx_def example_deadline formatError_def Let_def)
     (simp add: slow_fn_def)

lemma setExecutionContext_timeout_irrelevant:
  "setExecutionContext L vm0 ctx (function\<lparr>fn_timeout := t\<rparr>) = setExecutionContext L vm0 ctx function"
  by (simp add: setExecutionContext_def)

text \<open>
  Claim C2, amended.  For an existing, enabled function the script is evaluated under
  the plugin-wide deadline \<open>MaxExecutionTime\<close>: if the script never returns or returns
  after the deadline, the engine returns \<open>Success = False\<close>, a nil output and the error
  \<open>execution timeout\<close>; if it returns before the deadline, the engine returns the
  script's value and error.  The result does not depend on the timeout field of the
  function, and \<open>MaxExecutionTime\<close> is 30 s when the plugin is configured with 0.
\<close>

theorem execute_deadline_is_plugin_wide:
  assumes "FindRecordById A ''lambdas'' (FunctionID ctx) = Inr function" and "enabled function"
  shows
    "(let r = RunString L (setExecutionContext L (createVM L p) ctx function) (fn_code function) in
       (run_time r = None \<or> (\<exists>d. run_time r = Some d \<and> MaxExecutionTime (config p) < d) \<longrightarrow>
          executeFunction L A p ctx =
            \<lparr>Success = False, Output = OutNil, Error = ''execution timeout''\<rparr>) \<and>
       (\<forall>d. run_time r = Some d \<and> d < MaxExecutionTime (config p) \<longrightarrow>
          executeFunction L A p ctx =
            \<lparr>Success = (run_error r = None), Output = run_value r,
             Error = formatError (run_error r)\<rparr>)) \<and>
     (\<forall>A' t. FindRecordById A' ''lambdas'' (FunctionID ctx) = Inr (function\<lparr>fn_timeout := t\<rparr>) \<longrightarrow>
        executeFunction L A' p ctx = executeFunction L A p ctx) \<and>
     MaxExecutionTime (config (RegisterLambdaFunctionPlugin cfg)) =
       (if MaxExecutionTime cfg = 0 then 30000000000 else MaxExecutionTime cfg)"
proof -
  have late: "executeFunction L A p ctx =
      \<lparr>Success = False, Output = OutNil, Error = ''execution timeout''\<rparr>"
    if "run_time (RunString L (setExecutionContext L (createVM L p) ctx function) (fn_code function)) = None \<or>
        (\<exists>d. run_time (RunString L (setExecutionContext L (createVM L p) ctx function) (fn_code function)) = Some d \<and>
             MaxExecutionTime (config p) < d)"
    using that assms
    by (auto simp: executeFunction_def executeWithContext_def formatError_def Let_def)
  have early: "executeFunction L A p ctx =
      \<lparr>Success = (run_error r = None), Output = run_value r, Error = formatError (run_error r)\<rparr>"
    if "r = RunString L (setExecutionContext L (createVM L p) ctx function) (fn_code function)"
      and "run_time r = Some d" and "d < MaxExecutionTime (config p)" for r d
    using that assms
    by (simp add: executeFunction_def executeWithContext_def Let_def)
  have indep: "executeFunction L A' p ctx = executeFunction L A p ctx"
    if "FindRecordById A' ''lambdas'' (FunctionID ctx) = Inr (function\<lparr>fn_timeout := t\<rparr>)" for A' t
    using that assms
    by (simp add: executeFunction_def setExecutionContext_timeout_irrelevant)
  have dflt: "MaxExecutionTime (config (RegisterLambdaFunctionPlugin cfg)) =
       (if MaxExecutionTime cfg = 0 then 30000000000 else MaxExecutionTime cfg)"
    by (simp add: RegisterLambdaFunctionPlugin_def Let_def)
  show ?thesis
    unfolding Let_def using late early indep dflt by blast
qed

theorem execute_deadline_is_plugin_wide_witness:
  "executeFunction example_lib example_app example_plugin (example_ctx ''fn_loop'') =
     \<lparr>Success = False, Output = OutNil, Error = ''execution timeout''\<rparr> \<and>
   executeFunction example_lib example_app example_plugin (example_ctx ''fn_slow'') =
     \<lparr>Success = True, Output = OutGojaValue (GoInt 1), Error = ''''\<rparr> \<and>
   MaxExecutionTime (config example_plugin) = 30000000000"
proof -
  have loop: "FindRecordById example_app ''lambdas'' (FunctionID (example_ctx ''fn_loop'')) = Inr loop_fn"
    "enabled loop_fn"
    by (simp_all add: example_ctx_def example_find_loop) (simp add: loop_fn_def)
  have slow: "FindRecordById example_app ''lambdas'' (FunctionID (example_ctx ''fn_slow'')) = Inr slow_fn"
    "enabled slow_fn"
    by (simp_all add: example_ctx_def example_find_slow) (simp add: slow_fn_def)
  from execute_deadline_is_plugin_wide [OF loop, of example_lib example_plugin]
  have r1: "executeFunction example_lib example_app example_plugin (example_ctx ''fn_loop'') =
     \<lparr>Success = False, Output = OutNil, Error = ''execution timeout''\<rparr>"
    by (simp add: example_run_loop Let_def)
  from execute_deadline_is_plugin_wide [OF slow, of example_lib example_plugin]
  have r2: "executeFunction example_lib example_app example_plugin (example_ctx ''fn_slow'') =
     \<lparr>Success = True, Output = OutGojaValue (GoInt 1), Error = ''''\<rparr>"
    by (simp add: example_run_slow example_deadline formatError_def Let_def)
  from execute_deadline_is_plugin_wide [OF slow, of example_lib example_plugin
      "\<lparr>PoolSize = 0, MaxExecutionTime = 0, MaxMemory = 0, OnInit = None\<rparr>"]
  have r3: "MaxExecutionTime (config example_plugin) = 30000000000"
    by (simp add: example_plugin_def)
  from r1 r2 r3 show ?thesis by blast
qed

section \<open>Properties of the trigger registry\<close>

subsection \<open>Lookups after the table operations\<close>

lemma Load_Store: "Load (Store k v m) k' = (if k' = k then Some v else Load m k')"
  by (simp add: Load_def Store_def)

lemma Load_Delete: "Load (Delete k m) k' = (if k' = k then None else Load m k')"
  by (simp add: Load_def Delete_def)

lemma Load_empty: "Load DAList.empty k = None"
  by (simp add: Load_def)

lemma Load_entries: "(Load m k = Some v) = ((k, v) \<in> set (DAList.impl_of m))"
  by (simp add: Load_def DAList.lookup.rep_eq)

lemma fold_delete_if:
  "Load (fold (\<lambda>kv m. if P (snd kv) then Delete (fst kv) m else m) es m) k =
     (if \<exists>v. (k, v) \<in> set es \<and> P v then None else Load m k)"
proof (induction es arbitrary: m)
  case Nil
  show ?case by simp
next
  case (Cons e es)
  show ?case
    by (cases e) (auto simp: Cons.IH Load_Delete)
qed

lemma fold_filter_buckets:
  assumes "distinct (map fst es)"
  shows "Load (fold (\<lambda>kv m. if filter Q (snd kv) = [] then Delete (fst kv) m
                             else Store (fst kv) (filter Q (snd kv)) m)
               es m) k =
     (case map_of es k of
        None \<Rightarrow> Load m k
      | Some ts \<Rightarrow> if filter Q ts = [] then None else Some (filter Q ts))"
  using assms
proof (induction es arbitrary: m)
  case Nil
  show ?case by simp
next
  case (Cons e es)
  from Cons.prems have d: "distinct (map fst es)" and n: "fst e \<notin> fst ` set es"
    by auto
  from n have none: "map_of es (fst e) = None"
    by (simp add: map_of_eq_None_iff)
  show ?case
    by (cases e) (use none in \<open>auto simp: Cons.IH [OF d] Load_Delete Load_Store split: option.split\<close>)
qed

subsection \<open>The tables after \<open>handleFunctionDeleted\<close>\<close>

lemma routes_after_delete:
  "Load (httpRoutes (fst (handleFunctionDeleted p record))) k =
     (case Load (httpRoutes p) k of
        None \<Rightarrow> None
      | Some r \<Rightarrow> if FunctionID r = Id record then None else Some r)"
proof -
  have "Load (httpRoutes (fst (handleFunctionDeleted p record))) k =
      (if \<exists>v. (k, v) \<in> set (DAList.impl_of (httpRoutes p)) \<and> FunctionID v = Id record
       then None else Load (httpRoutes p) k)"
    by (simp add: handleFunctionDeleted_def RangeMap_def Let_def
        fold_delete_if [where P = "\<lambda>r. FunctionID r = Id record"])
  then show ?thesis
    by (auto simp: Load_entries [symmetric] split: option.split)
qed

lemma triggers_after_delete:
  "Load (dbTriggers (fst (handleFunctionDeleted p record))) k =
     (case Load (dbTriggers p) k of
        None \<Rightarrow> None
      | Some ts \<Rightarrow>
          if filter (\<lambda>t. FunctionID t \<noteq> Id record) ts = [] then None
          else Some (filter (\<lambda>t. FunctionID t \<noteq> Id record) ts))"
  by (simp add: handleFunctionDeleted_def RangeMap_def Let_def fold_filter_buckets)
     (simp add: Load_def DAList.lookup.rep_eq split: option.split)

lemma cron_after_delete:
  "Load (cronJobs (fst (handleFunctionDeleted p record))) k =
     (if k = Id record then None else Load (cronJobs p) k)"
  by (simp add: handleFunctionDeleted_def Let_def LoadAndDelete_def Load_Delete)

lemma outcome_of_delete: "snd (handleFunctionDeleted p record) = Ok"
  by (simp add: handleFunctionDeleted_def Let_def)

lemma cron_keyed_iff:
  "cron_keyed p = (\<forall>k j. Load (cronJobs p) k = Some j \<longrightarrow> FunctionID j = k)"
  by (auto simp: cron_keyed_def list_all_iff Load_entries)

subsection \<open>Registration is a fixed sequence of calls\<close>

text \<open>
  Which calls a registration makes, and how it ends, depends on the record and the
  libraries only, not on the state it starts from.
\<close>

lemma apply_calls_Nil: "apply_calls [] p = p"
  by (simp add: apply_calls_def)

lemma apply_calls_Cons: "apply_calls (c # cs) p = apply_calls cs (apply_call c p)"
  by (simp add: apply_calls_def)

lemma apply_calls_append: "apply_calls (cs @ ds) p = apply_calls ds (apply_calls cs p)"
  by (simp add: apply_calls_def)

lemma and_then_calls:
  "and_then (apply_calls cs p, oc) (\<lambda>q. (apply_calls ds q, od)) =
     (apply_calls (if oc = Ok then cs @ ds else cs) p, if oc = Ok then od else oc)"
  by (cases oc) (simp_all add: and_then_def apply_calls_append)

lemma registerCronTrigger_call:
  "registerCronTrigger L p functionID schedule =
     (if cron_valid L schedule then (apply_call (CallCron functionID schedule) p, Ok)
      else (p, Panicked))"
  by (simp add: registerCronTrigger_def Let_def)

lemma http_loop_calls:
  "\<exists>cs oc. \<forall>p. register_http_triggers L functionID ts p = (apply_calls cs p, oc)"
proof (induction ts)
  case Nil
  have "\<forall>p. register_http_triggers L functionID [] p = (apply_calls [] p, Ok)"
    by (simp add: apply_calls_Nil)
  then show ?case by blast
next
  case (Cons t ts)
  then obtain cs oc where IH: "\<And>p. register_http_triggers L functionID ts p = (apply_calls cs p, oc)"
    by blast
  show ?case
  proof (cases "as_map t")
    case None
    then have "\<forall>p. register_http_triggers L functionID (t # ts) p = (apply_calls cs p, oc)"
      by (simp add: IH)
    then show ?thesis by blast
  next
    case (Some httpTrigger)
    note is_map = Some
    show ?thesis
    proof (cases "assert_string httpTrigger ''method''")
      case None
      with is_map
      have "\<forall>p. register_http_triggers L functionID (t # ts) p = (apply_calls [] p, Panicked)"
        by (simp add: apply_calls_Nil)
      then show ?thesis by blast
    next
      case (Some m)
      note has_method = Some
      show ?thesis
      proof (cases "assert_string httpTrigger ''path''")
        case None
        with is_map has_method
        have "\<forall>p. register_http_triggers L functionID (t # ts) p = (apply_calls [] p, Panicked)"
          by (simp add: apply_calls_Nil)
        then show ?thesis by blast
      next
        case (Some path)
        with is_map has_method
        have "\<forall>p. register_http_triggers L functionID (t # ts) p =
            (apply_calls (CallHTTP functionID (ToUpper L m) path # cs) p, oc)"
          by (simp add: IH apply_calls_Cons)
        then show ?thesis by blast
      qed
    qed
  qed
qed

lemma db_loop_calls:
  "\<exists>cs oc. \<forall>p. register_db_triggers functionID ts p = (apply_calls cs p, oc)"
proof (induction ts)
  case Nil
  have "\<forall>p. register_db_triggers functionID [] p = (apply_calls [] p, Ok)"
    by (simp add: apply_calls_Nil)
  then show ?case by blast
next
  case (Cons t ts)
  then obtain cs oc where IH: "\<And>p. register_db_triggers functionID ts p = (apply_calls cs p, oc)"
    by blast
  show ?case
  proof (cases "as_map t")
    case None
    then have "\<forall>p. register_db_triggers functionID (t # ts) p = (apply_calls cs p, oc)"
      by (simp add: IH)
    then show ?thesis by blast
  next
    case (Some dbTrigger)
    note is_map = Some
    show ?thesis
    proof (cases "assert_string dbTrigger ''collection''")
      case None
      with is_map
      have "\<forall>p. register_db_triggers functionID (t # ts) p = (apply_calls [] p, Panicked)"
        by (simp add: apply_calls_Nil)
      then show ?thesis by blast
    next
      case (Some collection)
      note has_collection = Some
      show ?thesis
      proof (cases "assert_string dbTrigger ''event''")
        case None
        with is_map has_collection
        have "\<forall>p. register_db_triggers functionID (t # ts) p = (apply_calls [] p, Panicked)"
          by (simp add: apply_calls_Nil)
        then show ?thesis by blast
      next
        case (Some event)
        with is_map has_collection
        have "\<forall>p. register_db_triggers functionID (t # ts) p =
            (apply_calls (CallDB functionID collection event # cs) p, oc)"
          by (simp add: IH apply_calls_Cons)
        then show ?thesis by blast
      qed
    qed
  qed
qed

lemma cron_loop_calls:
  "\<exists>cs oc. \<forall>p. register_cron_triggers L functionID ts p = (apply_calls cs p, oc)"
proof (induction ts)
  case Nil
  have "\<forall>p. register_cron_triggers L functionID [] p = (apply_calls [] p, Ok)"
    by (simp add: apply_calls_Nil)
  then show ?case by blast
next
  case (Cons t ts)
  then obtain cs oc where IH: "\<And>p. register_cron_triggers L functionID ts p = (apply_calls cs p, oc)"
    by blast
  then have IH': "register_cron_triggers L functionID ts = (\<lambda>p. (apply_calls cs p, oc))"
    by (simp add: fun_eq_iff)
  show ?case
  proof (cases "as_map t")
    case None
    then have "\<forall>p. register_cron_triggers L functionID (t # ts) p = (apply_calls cs p, oc)"
      by (simp add: IH)
    then show ?thesis by blast
  next
    case (Some cronTrigger)
    note is_map = Some
    show ?thesis
    proof (cases "assert_string cronTrigger ''schedule''")
      case None
      with is_map
      have "\<forall>p. register_cron_triggers L functionID (t # ts) p = (apply_calls [] p, Panicked)"
        by (simp add: apply_calls_Nil)
      then show ?thesis by blast
    next
      case (Some schedule)
      note has_schedule = Some
      show ?thesis
      proof (cases "cron_valid L schedule")
        case False
        with is_map has_schedule
        have "\<forall>p. register_cron_triggers L functionID (t # ts) p = (apply_calls [] p, Panicked)"
          by (simp add: apply_calls_Nil registerCronTrigger_call and_then_def)
        then show ?thesis by blast
      next
        case True
        with is_map has_schedule
        have "\<forall>p. register_cron_triggers L functionID (t # ts) p =
            (apply_calls (CallCron functionID schedule # cs) p, oc)"
          by (simp add: IH' apply_calls_Cons registerCronTrigger_call and_then_def)
        then show ?thesis by blast
      qed
    qed
  qed
qed

lemma registerFunction_calls:
  "\<exists>cs oc. \<forall>p. registerFunction L p function = (apply_calls cs p, oc)"
proof (cases "enabled function")
  case False
  then have "\<forall>p. registerFunction L p function = (apply_calls [] p, Ok)"
    by (simp add: registerFunction_def apply_calls_Nil)
  then show ?thesis by blast
next
  case True
  note on = True
  show ?thesis
  proof (cases "json_Unmarshal L (triggers function)")
    case (Inl err)
    with on have "\<forall>p. registerFunction L p function =
        (apply_calls [CallLog ''Invalid trigger configuration''] p,
         Failed (''invalid trigger configuration: '' @ err))"
      by (simp add: registerFunction_def apply_calls_Cons apply_calls_Nil)
    then show ?thesis by blast
  next
    case (Inr triggerConfig)
    obtain hs ho where h: "\<And>p. (case assert_slice triggerConfig ''http'' of
          Some httpTriggers \<Rightarrow> register_http_triggers L (Id function) httpTriggers p
        | None \<Rightarrow> (p, Ok)) = (apply_calls hs p, ho)"
    proof (cases "assert_slice triggerConfig ''http''")
      case None
      then show ?thesis using that [of "[]" Ok] by (simp add: apply_calls_Nil)
    next
      case (Some ts)
      then show ?thesis using http_loop_calls [of L "Id function" ts] that by auto
    qed
    obtain ds do where d: "\<And>p. (case assert_slice triggerConfig ''database'' of
          Some dbTrigs \<Rightarrow> register_db_triggers (Id function) dbTrigs p
        | None \<Rightarrow> (p, Ok)) = (apply_calls ds p, do)"
    proof (cases "assert_slice triggerConfig ''database''")
      case None
      then show ?thesis using that [of "[]" Ok] by (simp add: apply_calls_Nil)
    next
      case (Some ts)
      then show ?thesis using db_loop_calls [of "Id function" ts] that by auto
    qed
    obtain cs co where c: "\<And>p. (case assert_slice triggerConfig ''cron'' of
          Some cronTriggers \<Rightarrow> register_cron_triggers L (Id function) cronTriggers p
        | None \<Rightarrow> (p, Ok)) = (apply_calls cs p, co)"
    proof (cases "assert_slice triggerConfig ''cron''")
      case None
      then show ?thesis using that [of "[]" Ok] by (simp add: apply_calls_Nil)
    next
      case (Some ts)
      then show ?thesis using cron_loop_calls [of L "Id function" ts] that by auto
    qed
    from on Inr have "\<forall>p. registerFunction L p function =
        (apply_calls (if ho = Ok then hs @ (if do = Ok then ds @ cs else ds) else hs) p,
         if ho = Ok then (if do = Ok then co else do) else ho)"
      by (simp add: registerFunction_def h d c and_then_calls Let_def)
    then show ?thesis by blast
  qed
qed

lemma load_loop_calls:
  "\<exists>cs oc. \<forall>p. load_loop L fns p = (apply_calls cs p, oc)"
proof (induction fns)
  case Nil
  have "\<forall>p. load_loop L [] p = (apply_calls [] p, Ok)"
    by (simp add: apply_calls_Nil)
  then show ?case by blast
next
  case (Cons fn rest)
  then obtain cs oc where IH: "\<And>p. load_loop L rest p = (apply_calls cs p, oc)"
    by blast
  obtain rs ro where reg: "\<And>p. registerFunction L p fn = (apply_calls rs p, ro)"
    using registerFunction_calls [of L fn] by blast
  show ?case
  proof (cases ro)
    case Ok
    then have "\<forall>p. load_loop L (fn # rest) p = (apply_calls (rs @ cs) p, oc)"
      by (simp add: reg IH apply_calls_append)
    then show ?thesis by blast
  next
    case (Failed err)
    then have "\<forall>p. load_loop L (fn # rest) p =
        (apply_calls (rs @ CallLog ''Failed to register lambda function'' # cs) p, oc)"
      by (simp add: reg IH apply_calls_append apply_calls_Cons)
    then show ?thesis by blast
  next
    case Panicked
    then have "\<forall>p. load_loop L (fn # rest) p = (apply_calls rs p, Panicked)"
      by (simp add: reg)
    then show ?thesis by blast
  qed
qed

lemma loadLambdaFunctions_calls:
  "\<exists>cs oc. \<forall>p. loadLambdaFunctions L A p = (apply_calls cs p, oc)"
proof (cases "FindCollectionByNameOrId A ''lambdas''")
  case False
  then have "\<forall>p. loadLambdaFunctions L A p = (apply_calls [] p, Ok)"
    by (simp add: loadLambdaFunctions_def apply_calls_Nil)
  then show ?thesis by blast
next
  case True
  show ?thesis
  proof (cases "FindRecordsByFilter A ''lambdas'' ''enabled = true''")
    case (Inl err)
    with True have "\<forall>p. loadLambdaFunctions L A p =
        (apply_calls [] p, Failed (''failed to load lambda functions: '' @ err))"
      by (simp add: loadLambdaFunctions_def apply_calls_Nil)
    then show ?thesis by blast
  next
    case (Inr fns)
    with True show ?thesis
      using load_loop_calls [of L fns] by (simp add: loadLambdaFunctions_def)
  qed
qed

subsection \<open>What a sequence of calls does to the tables\<close>

lemma routes_after_call:
  "\<exists>H. \<forall>p. Load (httpRoutes (apply_call c p)) = Load (httpRoutes p) ++ H"
proof (cases c)
  case (CallHTTP functionID meth path)
  have "\<forall>p. Load (httpRoutes (apply_call c p)) =
      Load (httpRoutes p) ++ [meth @ '':'' @ path \<mapsto>
        \<lparr>FunctionID = functionID, Method = meth, Path = path\<rparr>]"
    by (auto simp: CallHTTP registerHTTPTrigger_def Let_def Load_Store fun_eq_iff map_add_def)
  then show ?thesis by blast
next
  case (CallDB functionID collection event)
  have "\<forall>p. Load (httpRoutes (apply_call c p)) = Load (httpRoutes p) ++ Map.empty"
    by (simp add: CallDB registerDatabaseTrigger_def Let_def)
  then show ?thesis by blast
next
  case (CallCron functionID schedule)
  have "\<forall>p. Load (httpRoutes (apply_call c p)) = Load (httpRoutes p) ++ Map.empty"
    by (simp add: CallCron)
  then show ?thesis by blast
next
  case (CallLog message)
  have "\<forall>p. Load (httpRoutes (apply_call c p)) = Load (httpRoutes p) ++ Map.empty"
    by (simp add: CallLog)
  then show ?thesis by blast
qed

lemma routes_after_calls:
  "\<exists>H. \<forall>p. Load (httpRoutes (apply_calls cs p)) = Load (httpRoutes p) ++ H"
proof (induction cs)
  case Nil
  have "\<forall>p. Load (httpRoutes (apply_calls [] p)) = Load (httpRoutes p) ++ Map.empty"
    by (simp add: apply_calls_Nil)
  then show ?case by blast
next
  case (Cons c cs)
  then obtain H where IH: "\<And>p. Load (httpRoutes (apply_calls cs p)) = Load (httpRoutes p) ++ H"
    by blast
  obtain H1 where one: "\<And>p. Load (httpRoutes (apply_call c p)) = Load (httpRoutes p) ++ H1"
    using routes_after_call [of c] by blast
  have "\<forall>p. Load (httpRoutes (apply_calls (c # cs) p)) = Load (httpRoutes p) ++ (H1 ++ H)"
    by (simp add: apply_calls_Cons IH one)
  then show ?case by blast
qed

lemma cron_after_call:
  "\<exists>H. \<forall>p. Load (cronJobs (apply_call c p)) = Load (cronJobs p) ++ H"
proof (cases c)
  case (CallHTTP functionID meth path)
  have "\<forall>p. Load (cronJobs (apply_call c p)) = Load (cronJobs p) ++ Map.empty"
    by (simp add: CallHTTP registerHTTPTrigger_def Let_def)
  then show ?thesis by blast
next
  case (CallDB functionID collection event)
  have "\<forall>p. Load (cronJobs (apply_call c p)) = Load (cronJobs p) ++ Map.empty"
    by (simp add: CallDB registerDatabaseTrigger_def Let_def)
  then show ?thesis by blast
next
  case (CallCron functionID schedule)
  have "\<forall>p. Load (cronJobs (apply_call c p)) =
      Load (cronJobs p) ++ [functionID \<mapsto>
        \<lparr>FunctionID = functionID, Schedule = schedule,
         JobID = ''lambda_function_'' @ functionID\<rparr>]"
    by (auto simp: CallCron Load_Store fun_eq_iff map_add_def)
  then show ?thesis by blast
next
  case (CallLog message)
  have "\<forall>p. Load (cronJobs (apply_call c p)) = Load (cronJobs p) ++ Map.empty"
    by (simp add: CallLog)
  then show ?thesis by blast
qed

lemma cron_after_calls:
  "\<exists>H. \<forall>p. Load (cronJobs (apply_calls cs p)) = Load (cronJobs p) ++ H"
proof (induction cs)
  case Nil
  have "\<forall>p. Load (cronJobs (apply_calls [] p)) = Load (cronJobs p) ++ Map.empty"
    by (simp add: apply_calls_Nil)
  then show ?case by blast
next
  case (Cons c cs)
  then obtain H where IH: "\<And>p. Load (cronJobs (apply_calls cs p)) = Load (cronJobs p) ++ H"
    by blast
  obtain H1 where one: "\<And>p. Load (cronJobs (apply_call c p)) = Load (cronJobs p) ++ H1"
    using cron_after_call [of c] by blast
  have "\<forall>p. Load (cronJobs (apply_calls (c # cs) p)) = Load (cronJobs p) ++ (H1 ++ H)"
    by (simp add: apply_calls_Cons IH one)
  then show ?case by blast
qed

lemma bucket_after_registerDatabaseTrigger:
  "bucket (registerDatabaseTrigger p functionID collection event) k =
     bucket p k @ (if k = collection @ '':'' @ event
                   then [\<lparr>FunctionID = functionID, Collection = collection, Event = event\<rparr>]
                   else [])"
  by (simp add: bucket_def registerDatabaseTrigger_def Let_def LoadOrStore_def Load_Store
      split: option.split)

lemma bucket_after_call:
  "\<exists>D. \<forall>p k. bucket (apply_call c p) k = bucket p k @ D k"
proof (cases c)
  case (CallHTTP functionID meth path)
  show ?thesis
    by (rule exI [of _ "\<lambda>k. []"]) (simp add: CallHTTP registerHTTPTrigger_def Let_def bucket_def)
next
  case (CallDB functionID collection event)
  show ?thesis
    by (rule exI [of _ "\<lambda>k. if k = collection @ '':'' @ event
           then [\<lparr>FunctionID = functionID, Collection = collection, Event = event\<rparr>]
           else []"])
       (simp add: CallDB bucket_after_registerDatabaseTrigger)
next
  case (CallCron functionID schedule)
  show ?thesis
    by (rule exI [of _ "\<lambda>k. []"]) (simp add: CallCron bucket_def)
next
  case (CallLog message)
  show ?thesis
    by (rule exI [of _ "\<lambda>k. []"]) (simp add: CallLog bucket_def)
qed

lemma bucket_after_calls:
  "\<exists>D. \<forall>p k. bucket (apply_calls cs p) k = bucket p k @ D k"
proof (induction cs)
  case Nil
  show ?case
    by (rule exI [of _ "\<lambda>k. []"]) (simp add: apply_calls_Nil)
next
  case (Cons c cs)
  then obtain D where IH: "\<And>p k. bucket (apply_calls cs p) k = bucket p k @ D k"
    by blast
  obtain D1 where one: "\<And>p k. bucket (apply_call c p) k = bucket p k @ D1 k"
    using bucket_after_call [of c] by blast
  show ?case
    by (rule exI [of _ "\<lambda>k. D1 k @ D k"]) (simp add: apply_calls_Cons IH one)
qed

subsection \<open>Cron job entries are stored under their function id\<close>

lemma tables_after_registerHTTPRoutes:
  "httpRoutes (registerHTTPRoutes p) = httpRoutes p"
  "dbTriggers (registerHTTPRoutes p) = dbTriggers p"
  "cronJobs (registerHTTPRoutes p) = cronJobs p"
  "scheduler (registerHTTPRoutes p) = scheduler p"
  "error_log (registerHTTPRoutes p) = error_log p"
  by (simp_all add: registerHTTPRoutes_def split: option.split)

lemma cron_keyed_call: "cron_keyed p \<Longrightarrow> cron_keyed (apply_call c p)"
  by (cases c)
     (auto simp: cron_keyed_iff Load_Store registerHTTPTrigger_def registerDatabaseTrigger_def
        Let_def split: if_splits)

lemma cron_keyed_calls: "cron_keyed p \<Longrightarrow> cron_keyed (apply_calls cs p)"
  by (induction cs arbitrary: p) (simp_all add: apply_calls_Nil apply_calls_Cons cron_keyed_call)

lemma cron_keyed_registerFunction: "cron_keyed p \<Longrightarrow> cron_keyed (fst (registerFunction L p fn))"
  using registerFunction_calls [of L fn] by (auto simp: cron_keyed_calls)

lemma cron_keyed_registerHTTPRoutes: "cron_keyed (registerHTTPRoutes p) = cron_keyed p"
  by (simp add: cron_keyed_def tables_after_registerHTTPRoutes)

lemma cron_keyed_and_then_routes:
  "cron_keyed (fst r) \<Longrightarrow> cron_keyed (fst (and_then r (\<lambda>p1. (registerHTTPRoutes p1, Ok))))"
  by (cases "snd r") (simp_all add: and_then_def cron_keyed_registerHTTPRoutes)

lemma cron_keyed_deleted: "cron_keyed p \<Longrightarrow> cron_keyed (fst (handleFunctionDeleted p record))"
  by (simp add: cron_keyed_iff cron_after_delete)

lemma reachable_cron_keyed: "reachable L p \<Longrightarrow> cron_keyed p"
proof (induction rule: reachable.induct)
  case (start cfg)
  show ?case
    by (simp add: cron_keyed_iff RegisterLambdaFunctionPlugin_def Let_def Load_empty)
next
  case (bootstrap p A)
  obtain cs oc where "\<And>q. loadLambdaFunctions L A q = (apply_calls cs q, oc)"
    using loadLambdaFunctions_calls [of L A] by blast
  with bootstrap.IH show ?case
    by (simp add: OnBootstrap_def cron_keyed_and_then_routes cron_keyed_calls)
next
  case (serve p eventRouter)
  then show ?case
    by (simp add: OnServe_def cron_keyed_registerHTTPRoutes) (simp add: cron_keyed_def)
next
  case (created p rec)
  then show ?case
    by (simp add: handleFunctionCreated_def cron_keyed_and_then_routes cron_keyed_registerFunction)
next
  case (updated p rec)
  then show ?case
    by (simp add: handleFunctionUpdated_def cron_keyed_and_then_routes
        cron_keyed_registerFunction cron_keyed_deleted)
next
  case (deleted p rec)
  then show ?case
    by (simp add: cron_keyed_deleted)
qed

text \<open>
  Claim C6.  From every state the plugin can reach, after the delete handler for a
  record has returned (it always returns nil), no HTTP route entry, no DB trigger
  entry and no cron job entry with that record's function id is left in the three
  tables, and no bucket of the DB trigger table is empty.
\<close>

theorem handleFunctionDeleted_unregisters:
  assumes "reachable L p"
  shows "snd (handleFunctionDeleted p record) = Ok \<and>
    (\<forall>k r. Load (httpRoutes (fst (handleFunctionDeleted p record))) k = Some r \<longrightarrow>
       FunctionID r \<noteq> Id record) \<and>
    (\<forall>k ts. Load (dbTriggers (fst (handleFunctionDeleted p record))) k = Some ts \<longrightarrow>
       ts \<noteq> [] \<and> (\<forall>t \<in> set ts. FunctionID t \<noteq> Id record)) \<and>
    (\<forall>k j. Load (cronJobs (fst (handleFunctionDeleted p record))) k = Some j \<longrightarrow>
       FunctionID j \<noteq> Id record)"
proof -
  have routes: "FunctionID r \<noteq> Id record"
    if "Load (httpRoutes (fst (handleFunctionDeleted p record))) k = Some r" for k r
    using that by (auto simp: routes_after_delete split: option.splits if_splits)
  have trigs: "ts \<noteq> [] \<and> (\<forall>t \<in> set ts. FunctionID t \<noteq> Id record)"
    if "Load (dbTriggers (fst (handleFunctionDeleted p record))) k = Some ts" for k ts
    using that by (auto simp: triggers_after_delete split: option.splits if_splits)
  from assms have "cron_keyed p"
    by (rule reachable_cron_keyed)
  then have cron: "FunctionID j \<noteq> Id record"
    if "Load (cronJobs (fst (handleFunctionDeleted p record))) k = Some j" for k j
    using that by (auto simp: cron_after_delete cron_keyed_iff split: if_splits)
  from routes trigs cron outcome_of_delete show ?thesis
    by blast
qed

subsection \<open>The concrete registry states\<close>

lemma upper_get: "ToUpper example_lib ''get'' = ''GET''"
proof -
  have "map ascii_upper ''get'' = ''GET''"
    by code_simp
  then show ?thesis
    by (simp add: example_lib_def)
qed

lemma example_register_ping:
  "registerFunction example_lib p ping_fn = (apply_calls [CallHTTP ''fn_ping'' ''GET'' ''/ping''] p, Ok)"
proof -
  have parse: "json_Unmarshal example_lib (triggers ping_fn) =
      Inr [(''http'', GoSlice [GoMap [(''method'', GoString ''get''), (''path'', GoString ''/ping'')]])]"
    by (simp add: example_lib_def example_Unmarshal_def ping_fn_def)
  have on: "enabled ping_fn" and ident: "Id ping_fn = ''fn_ping''"
    by (simp_all add: ping_fn_def)
  show ?thesis
    by (simp add: registerFunction_def parse on ident assert_slice_def assert_string_def as_map_def
        and_then_def upper_get apply_calls_Cons apply_calls_Nil)
qed

lemma example_register_audit:
  "registerFunction example_lib p audit_fn =
     (apply_calls [CallDB ''fn_audit'' ''posts'' ''create'', CallCron ''fn_audit'' ''*/1 * * * *''] p, Ok)"
proof -
  have parse: "json_Unmarshal example_lib (triggers audit_fn) =
      Inr [(''database'', GoSlice [GoMap [(''collection'', GoString ''posts''),
                                          (''event'', GoString ''create'')]]),
           (''cron'', GoSlice [GoMap [(''schedule'', GoString ''*/1 * * * *'')]])]"
    by (simp add: example_lib_def example_Unmarshal_def audit_fn_def)
       (simp add: ping_triggers_def audit_triggers_def)
  have on: "enabled audit_fn" and ident: "Id audit_fn = ''fn_audit''"
    by (simp_all add: audit_fn_def)
  have valid: "cron_valid example_lib ''*/1 * * * *''"
    by (simp add: example_lib_def)
  show ?thesis
    by (simp add: registerFunction_def parse on ident assert_slice_def assert_string_def as_map_def
        and_then_def registerCronTrigger_call valid apply_calls_Cons apply_calls_Nil Let_def)
qed

lemma registered_state_calls:
  "registered_state =
     registerHTTPRoutes (apply_calls [CallDB ''fn_audit'' ''posts'' ''create'',
                                     CallCron ''fn_audit'' ''*/1 * * * *'']
       (registerHTTPRoutes (apply_calls [CallHTTP ''fn_ping'' ''GET'' ''/ping''] example_plugin)))"
  by (simp add: registered_state_def handleFunctionCreated_def example_register_ping
      example_register_audit and_then_def)

lemma registered_state_tables:
  "Load (httpRoutes registered_state) ''GET:/ping'' = Some ping_route"
  "Load (dbTriggers registered_state) ''posts:create'' = Some [audit_trigger]"
  "Load (cronJobs registered_state) ''fn_audit'' = Some audit_job"
  by (simp_all add: registered_state_calls tables_after_registerHTTPRoutes apply_calls_Cons
      apply_calls_Nil registerDatabaseTrigger_def registerHTTPTrigger_def Let_def LoadOrStore_def
      Load_Store example_plugin_def RegisterLambdaFunctionPlugin_def Load_empty
      ping_route_def audit_trigger_def audit_job_def)

lemma registered_state_reachable: "reachable example_lib registered_state"
  unfolding registered_state_def example_plugin_def
  by (intro reachable.created reachable.start)

theorem handleFunctionDeleted_unregisters_witness:
  "reachable example_lib registered_state \<and>
   Load (dbTriggers registered_state) ''posts:create'' = Some [audit_trigger] \<and>
   Load (cronJobs registered_state) ''fn_audit'' = Some audit_job \<and>
   snd (handleFunctionDeleted registered_state audit_fn) = Ok \<and>
   Load (dbTriggers (fst (handleFunctionDeleted registered_state audit_fn))) ''posts:create''
     \<noteq> Some [audit_trigger] \<and>
   Load (cronJobs (fst (handleFunctionDeleted registered_state audit_fn))) ''fn_audit''
     \<noteq> Some audit_job \<and>
   Load (httpRoutes (fst (handleFunctionDeleted registered_state audit_fn))) ''GET:/ping''
     = Some ping_route"
proof -
  note gone = handleFunctionDeleted_unregisters [OF registered_state_reachable, of audit_fn]
  have ident: "Id audit_fn = ''fn_audit''"
    by (simp add: audit_fn_def)
  have "Load (dbTriggers (fst (handleFunctionDeleted registered_state audit_fn))) ''posts:create''
     \<noteq> Some [audit_trigger]"
  proof
    assume "Load (dbTriggers (fst (handleFunctionDeleted registered_state audit_fn))) ''posts:create''
      = Some [audit_trigger]"
    with gone have "\<forall>t \<in> set [audit_trigger]. FunctionID t \<noteq> Id audit_fn"
      by blast
    then show False
      by (simp add: ident audit_trigger_def)
  qed
  moreover
  have "Load (cronJobs (fst (handleFunctionDeleted registered_state audit_fn))) ''fn_audit''
     \<noteq> Some audit_job"
  proof
    assume "Load (cronJobs (fst (handleFunctionDeleted registered_state audit_fn))) ''fn_audit''
      = Some audit_job"
    with gone have "FunctionID audit_job \<noteq> Id audit_fn"
      by blast
    then show False
      by (simp add: ident audit_job_def)
  qed
  moreover
  have "Load (httpRoutes (fst (handleFunctionDeleted registered_state audit_fn))) ''GET:/ping''
     = Some ping_route"
    by (simp add: routes_after_delete registered_state_tables ident) (simp add: ping_route_def)
  ultimately show ?thesis
    using gone registered_state_reachable registered_state_tables by blast
qed

subsection \<open>Running the startup sequence twice\<close>

lemma bucket_registerHTTPRoutes: "bucket (registerHTTPRoutes p) k = bucket p k"
  by (simp add: bucket_def tables_after_registerHTTPRoutes)

lemma bucket_CallCron: "bucket (apply_call (CallCron functionID schedule) p) k = bucket p k"
  by (simp add: bucket_def)

lemma bucket_CallDB:
  "bucket (apply_call (CallDB functionID collection event) p) k =
     bucket p k @ (if k = collection @ '':'' @ event
                   then [\<lparr>FunctionID = functionID, Collection = collection, Event = event\<rparr>]
                   else [])"
  by (simp add: bucket_after_registerDatabaseTrigger)

lemma map_add_twice: "m ++ H ++ H = m ++ H"
  by (auto simp: fun_eq_iff map_add_def split: option.split)

lemma OnBootstrap_calls:
  "\<exists>cs oc. \<forall>p. snd (OnBootstrap L A p) = oc \<and>
      httpRoutes (fst (OnBootstrap L A p)) = httpRoutes (apply_calls cs p) \<and>
      cronJobs (fst (OnBootstrap L A p)) = cronJobs (apply_calls cs p) \<and>
      (\<forall>k. bucket (fst (OnBootstrap L A p)) k = bucket (apply_calls cs p) k)"
proof -
  obtain cs oc where load: "\<And>p. loadLambdaFunctions L A p = (apply_calls cs p, oc)"
    using loadLambdaFunctions_calls [of L A] by blast
  have "\<forall>p. snd (OnBootstrap L A p) = oc \<and>
      httpRoutes (fst (OnBootstrap L A p)) = httpRoutes (apply_calls cs p) \<and>
      cronJobs (fst (OnBootstrap L A p)) = cronJobs (apply_calls cs p) \<and>
      (\<forall>k. bucket (fst (OnBootstrap L A p)) k = bucket (apply_calls cs p) k)"
    by (cases oc)
       (simp_all add: OnBootstrap_def load and_then_def tables_after_registerHTTPRoutes
          bucket_registerHTTPRoutes)
  then show ?thesis by blast
qed

text \<open>
  Claim C7, as stated, fails on the DB trigger table: on a host whose only function
  \<open>fn_audit\<close> has one database trigger, the bucket \<open>posts:create\<close> holds one entry after
  one run of the startup sequence and two after a second run.
\<close>

theorem startup_twice_counterexample:
  "bucket (fst (OnBootstrap example_lib audit_app example_plugin)) ''posts:create''
     = [audit_trigger] \<and>
   bucket (fst (OnBootstrap example_lib audit_app
                  (fst (OnBootstrap example_lib audit_app example_plugin)))) ''posts:create''
     = [audit_trigger, audit_trigger] \<and>
   Load (dbTriggers (fst (OnBootstrap example_lib audit_app
                  (fst (OnBootstrap example_lib audit_app example_plugin))))) ''posts:create''
     \<noteq> Load (dbTriggers (fst (OnBootstrap example_lib audit_app example_plugin))) ''posts:create''"
proof -
  have run: "OnBootstrap example_lib audit_app p =
      (registerHTTPRoutes (apply_calls [CallDB ''fn_audit'' ''posts'' ''create'',
                                        CallCron ''fn_audit'' ''*/1 * * * *''] p), Ok)" for p
    by (simp add: OnBootstrap_def loadLambdaFunctions_def audit_app_def example_register_audit
        and_then_def)
  have empty: "bucket example_plugin ''posts:create'' = []"
    by (simp add: bucket_def example_plugin_def RegisterLambdaFunctionPlugin_def Load_empty Let_def)
  have one: "bucket (fst (OnBootstrap example_lib audit_app p)) ''posts:create'' =
      bucket p ''posts:create'' @ [audit_trigger]" for p
    by (simp add: run bucket_registerHTTPRoutes apply_calls_Cons apply_calls_Nil
        bucket_CallCron bucket_CallDB audit_trigger_def del: apply_call.simps)
  have b1: "bucket (fst (OnBootstrap example_lib audit_app example_plugin)) ''posts:create''
     = [audit_trigger]"
    by (simp add: one empty)
  have b2: "bucket (fst (OnBootstrap example_lib audit_app
                  (fst (OnBootstrap example_lib audit_app example_plugin)))) ''posts:create''
     = [audit_trigger, audit_trigger]"
    by (simp add: one empty)
  from b1 b2 have "bucket (fst (OnBootstrap example_lib audit_app
                  (fst (OnBootstrap example_lib audit_app example_plugin)))) ''posts:create''
     \<noteq> bucket (fst (OnBootstrap example_lib audit_app example_plugin)) ''posts:create''"
    by simp
  then have "Load (dbTriggers (fst (OnBootstrap example_lib audit_app
                  (fst (OnBootstrap example_lib audit_app example_plugin))))) ''posts:create''
     \<noteq> Load (dbTriggers (fst (OnBootstrap example_lib audit_app example_plugin))) ''posts:create''"
    by (auto simp: bucket_def)
  with b1 b2 show ?thesis by blast
qed

text \<open>
  Claim C7, amended.  Running the startup load-and-register sequence a second time on
  the same host ends as the first run did and leaves the HTTP route table and the cron
  job table as they were after the first run; in the DB trigger table it appends to
  every bucket once more the entries that the first run appended.
\<close>

theorem startup_twice:
  "(let p1 = fst (OnBootstrap L A p); p2 = fst (OnBootstrap L A p1) in
      snd (OnBootstrap L A p1) = snd (OnBootstrap L A p) \<and>
      Load (httpRoutes p2) = Load (httpRoutes p1) \<and>
      Load (cronJobs p2) = Load (cronJobs p1) \<and>
      (\<forall>k. bucket p2 k = bucket p1 k @ drop (length (bucket p k)) (bucket p1 k)))"
proof -
  obtain cs oc where boot: "\<And>q. snd (OnBootstrap L A q) = oc"
      "\<And>q. httpRoutes (fst (OnBootstrap L A q)) = httpRoutes (apply_calls cs q)"
      "\<And>q. cronJobs (fst (OnBootstrap L A q)) = cronJobs (apply_calls cs q)"
      "\<And>q k. bucket (fst (OnBootstrap L A q)) k = bucket (apply_calls cs q) k"
    using OnBootstrap_calls [of L A] by blast
  obtain H where H: "\<And>q. Load (httpRoutes (apply_calls cs q)) = Load (httpRoutes q) ++ H"
    using routes_after_calls [of cs] by blast
  obtain C where C: "\<And>q. Load (cronJobs (apply_calls cs q)) = Load (cronJobs q) ++ C"
    using cron_after_calls [of cs] by blast
  obtain D where D: "\<And>q k. bucket (apply_calls cs q) k = bucket q k @ D k"
    using bucket_after_calls [of cs] by blast
  define p1 where "p1 = fst (OnBootstrap L A p)"
  define p2 where "p2 = fst (OnBootstrap L A p1)"
  have r1: "Load (httpRoutes p1) = Load (httpRoutes p) ++ H"
    by (simp add: p1_def boot H)
  have r2: "Load (httpRoutes p2) = Load (httpRoutes p1) ++ H"
    by (simp add: p2_def boot H)
  have c1: "Load (cronJobs p1) = Load (cronJobs p) ++ C"
    by (simp add: p1_def boot C)
  have c2: "Load (cronJobs p2) = Load (cronJobs p1) ++ C"
    by (simp add: p2_def boot C)
  have b1: "bucket p1 k = bucket p k @ D k" for k
    by (simp add: p1_def boot D)
  have b2: "bucket p2 k = bucket p1 k @ D k" for k
    by (simp add: p2_def boot D)
  have "Load (httpRoutes p2) = Load (httpRoutes p1)"
    by (simp add: r2 r1 map_add_twice)
  moreover have "Load (cronJobs p2) = Load (cronJobs p1)"
    by (simp add: c2 c1 map_add_twice)
  moreover have "bucket p2 k = bucket p1 k @ drop (length (bucket p k)) (bucket p1 k)" for k
    by (simp add: b2) (simp add: b1)
  moreover have "snd (OnBootstrap L A p1) = snd (OnBootstrap L A p)"
    by (simp add: boot)
  ultimately show ?thesis
    by (simp add: Let_def p1_def p2_def)
qed

subsection \<open>Records whose trigger configuration does not parse, and disabled records\<close>

lemma bucket_after_delete:
  "bucket (fst (handleFunctionDeleted p record)) k =
     filter (\<lambda>t. FunctionID t \<noteq> Id record) (bucket p k)"
  by (simp add: bucket_def triggers_after_delete split: option.split)

lemma log_after_delete: "error_log (fst (handleFunctionDeleted p record)) = error_log p"
  by (simp add: handleFunctionDeleted_def Let_def)

lemma scheduler_after_delete:
  "set (scheduler (fst (handleFunctionDeleted p record))) \<subseteq> set (scheduler p)"
  by (auto simp: handleFunctionDeleted_def Let_def scheduler_remove_def split: option.split)

lemma registerFunction_unparsable:
  assumes "enabled record" and "json_Unmarshal L (triggers record) = Inl err"
  shows "registerFunction L p record =
     (p\<lparr>error_log := error_log p @ [''Invalid trigger configuration'']\<rparr>,
      Failed (''invalid trigger configuration: '' @ err))"
  using assms by (simp add: registerFunction_def)

text \<open>
  Claim C4, as stated, fails: for the enabled record \<open>broken_fn\<close>, whose trigger
  configuration \<open>not json\<close> does not parse, the create handler and the update handler
  return the error \<open>invalid trigger configuration: ...\<close> to their caller.
\<close>

theorem unparsable_triggers_counterexample:
  "enabled broken_fn \<and>
   json_Unmarshal example_lib (triggers broken_fn) = Inl ''invalid character'' \<and>
   snd (handleFunctionCreated example_lib example_plugin broken_fn) =
     Failed ''invalid trigger configuration: invalid character'' \<and>
   snd (handleFunctionUpdated example_lib registered_state broken_fn) =
     Failed ''invalid trigger configuration: invalid character''"
proof -
  have on: "enabled broken_fn"
    by (simp add: broken_fn_def)
  have parse: "json_Unmarshal example_lib (triggers broken_fn) = Inl ''invalid character''"
    by (simp add: example_lib_def example_Unmarshal_def broken_fn_def)
       (simp add: ping_triggers_def audit_triggers_def)
  show ?thesis
    by (simp add: on parse handleFunctionCreated_def handleFunctionUpdated_def and_then_def
        registerFunction_unparsable [OF on parse])
qed

text \<open>
  Claim C4, amended.  For an enabled record whose trigger configuration does not parse
  with error text \<open>err\<close>: the create handler logs the failure, changes nothing else and
  returns the error \<open>invalid trigger configuration: err\<close>; the update handler first
  removes the registrations of that record, then logs the failure and returns the same
  error, and the entries of all other functions stay in the three tables; at startup
  the loop of \<open>loadLambdaFunctions\<close> logs the failure and goes on with the remaining
  functions.
\<close>

theorem unparsable_triggers_are_reported:
  assumes "enabled record" and "json_Unmarshal L (triggers record) = Inl err"
  shows "handleFunctionCreated L p record =
      (p\<lparr>error_log := error_log p @ [''Invalid trigger configuration'']\<rparr>,
       Failed (''invalid trigger configuration: '' @ err)) \<and>
    handleFunctionUpdated L p record =
      ((fst (handleFunctionDeleted p record))
         \<lparr>error_log := error_log p @ [''Invalid trigger configuration'']\<rparr>,
       Failed (''invalid trigger configuration: '' @ err)) \<and>
    (\<forall>k r. Load (httpRoutes p) k = Some r \<and> FunctionID r \<noteq> Id record \<longrightarrow>
       Load (httpRoutes (fst (handleFunctionUpdated L p record))) k = Some r) \<and>
    (\<forall>k. bucket (fst (handleFunctionUpdated L p record)) k =
       filter (\<lambda>t. FunctionID t \<noteq> Id record) (bucket p k)) \<and>
    (\<forall>k. k \<noteq> Id record \<longrightarrow>
       Load (cronJobs (fst (handleFunctionUpdated L p record))) k = Load (cronJobs p) k) \<and>
    load_loop L (record # rest) p =
      load_loop L rest
        (p\<lparr>error_log := error_log p @
             [''Invalid trigger configuration'', ''Failed to register lambda function'']\<rparr>)"
proof -
  note reg = registerFunction_unparsable [OF assms]
  have created: "handleFunctionCreated L p record =
      (p\<lparr>error_log := error_log p @ [''Invalid trigger configuration'']\<rparr>,
       Failed (''invalid trigger configuration: '' @ err))"
    by (simp add: handleFunctionCreated_def reg and_then_def)
  have updated: "handleFunctionUpdated L p record =
      ((fst (handleFunctionDeleted p record))
         \<lparr>error_log := error_log p @ [''Invalid trigger configuration'']\<rparr>,
       Failed (''invalid trigger configuration: '' @ err))"
    by (simp add: handleFunctionUpdated_def reg and_then_def log_after_delete)
  have routes: "Load (httpRoutes (fst (handleFunctionUpdated L p record))) k = Some r"
    if "Load (httpRoutes p) k = Some r" and "FunctionID r \<noteq> Id record" for k r
    using that by (simp add: updated routes_after_delete)
  have trigs: "bucket (fst (handleFunctionUpdated L p record)) k =
       filter (\<lambda>t. FunctionID t \<noteq> Id record) (bucket p k)" for k
    using bucket_after_delete [of p "record" k] by (simp add: updated bucket_def)
  have cron: "Load (cronJobs (fst (handleFunctionUpdated L p record))) k = Load (cronJobs p) k"
    if "k \<noteq> Id record" for k
    using that by (simp add: updated cron_after_delete)
  have load: "load_loop L (record # rest) p =
      load_loop L rest
        (p\<lparr>error_log := error_log p @
             [''Invalid trigger configuration'', ''Failed to register lambda function'']\<rparr>)"
    by (simp add: reg)
  from created updated routes trigs cron load show ?thesis
    by blast
qed

theorem unparsable_triggers_are_reported_witness:
  "handleFunctionCreated example_lib example_plugin broken_fn =
     (example_plugin\<lparr>error_log := [''Invalid trigger configuration'']\<rparr>,
      Failed ''invalid trigger configuration: invalid character'') \<and>
   snd (handleFunctionUpdated example_lib registered_state broken_fn) =
      Failed ''invalid trigger configuration: invalid character'' \<and>
   Load (httpRoutes (fst (handleFunctionUpdated example_lib registered_state broken_fn)))
      ''GET:/ping'' = Some ping_route \<and>
   bucket (fst (handleFunctionUpdated example_lib registered_state broken_fn)) ''posts:create''
      = [audit_trigger] \<and>
   Load (cronJobs (fst (handleFunctionUpdated example_lib registered_state broken_fn)))
      ''fn_audit'' = Some audit_job"
proof -
  have on: "enabled broken_fn" and ident: "Id broken_fn = ''fn_broken''"
    by (simp_all add: broken_fn_def)
  have parse: "json_Unmarshal example_lib (triggers broken_fn) = Inl ''invalid character''"
    by (simp add: example_lib_def example_Unmarshal_def broken_fn_def)
       (simp add: ping_triggers_def audit_triggers_def)
  have nolog: "error_log example_plugin = []"
    by (simp add: example_plugin_def RegisterLambdaFunctionPlugin_def Let_def)
  note fresh = unparsable_triggers_are_reported [OF on parse, of example_plugin "[]"]
  note live = unparsable_triggers_are_reported [OF on parse, of registered_state "[]"]
  from fresh have c1: "handleFunctionCreated example_lib example_plugin broken_fn =
     (example_plugin\<lparr>error_log := [''Invalid trigger configuration'']\<rparr>,
      Failed ''invalid trigger configuration: invalid character'')"
    by (simp add: nolog)
  from live have c2: "snd (handleFunctionUpdated example_lib registered_state broken_fn) =
      Failed ''invalid trigger configuration: invalid character''"
    by simp
  have "FunctionID ping_route \<noteq> Id broken_fn"
    by (simp add: ping_route_def ident)
  with live registered_state_tables(1)
  have c3: "Load (httpRoutes (fst (handleFunctionUpdated example_lib registered_state broken_fn)))
      ''GET:/ping'' = Some ping_route"
    by blast
  from live have "bucket (fst (handleFunctionUpdated example_lib registered_state broken_fn)) ''posts:create''
      = filter (\<lambda>t. FunctionID t \<noteq> Id broken_fn) (bucket registered_state ''posts:create'')"
    by blast
  then have c4: "bucket (fst (handleFunctionUpdated example_lib registered_state broken_fn)) ''posts:create''
      = [audit_trigger]"
    by (simp add: bucket_def registered_state_tables ident audit_trigger_def)
  have "''fn_audit'' \<noteq> Id broken_fn"
    by (simp add: ident)
  with live have "Load (cronJobs (fst (handleFunctionUpdated example_lib registered_state broken_fn)))
      ''fn_audit'' = Load (cronJobs registered_state) ''fn_audit''"
    by blast
  then have c5: "Load (cronJobs (fst (handleFunctionUpdated example_lib registered_state broken_fn)))
      ''fn_audit'' = Some audit_job"
    by (simp add: registered_state_tables)
  from c1 c2 c3 c4 c5 show ?thesis
    by blast
qed

text \<open>
  Claim C10.  For a record with \<open>enabled = false\<close>, \<open>registerFunction\<close> returns nil and
  the state it was given: no table, nor the scheduler, changes.  So the create handler
  only re-attaches the routes to the router and leaves the three tables and the
  scheduler as they were, and the update handler, which first removes the record's own
  registrations, adds no entry to a table and no job to the scheduler.
\<close>

theorem registerFunction_disabled_is_noop:
  assumes "\<not> enabled record"
  shows "registerFunction L p record = (p, Ok) \<and>
    handleFunctionCreated L p record = (registerHTTPRoutes p, Ok) \<and>
    httpRoutes (registerHTTPRoutes p) = httpRoutes p \<and>
    dbTriggers (registerHTTPRoutes p) = dbTriggers p \<and>
    cronJobs (registerHTTPRoutes p) = cronJobs p \<and>
    scheduler (registerHTTPRoutes p) = scheduler p \<and>
    handleFunctionUpdated L p record =
      (registerHTTPRoutes (fst (handleFunctionDeleted p record)), Ok) \<and>
    (\<forall>k r. Load (httpRoutes (fst (handleFunctionUpdated L p record))) k = Some r \<longrightarrow>
       Load (httpRoutes p) k = Some r) \<and>
    (\<forall>k t. t \<in> set (bucket (fst (handleFunctionUpdated L p record)) k) \<longrightarrow>
       t \<in> set (bucket p k)) \<and>
    (\<forall>k j. Load (cronJobs (fst (handleFunctionUpdated L p record))) k = Some j \<longrightarrow>
       Load (cronJobs p) k = Some j) \<and>
    (\<forall>job. job \<in> set (scheduler (fst (handleFunctionUpdated L p record))) \<longrightarrow>
       job \<in> set (scheduler p))"
proof -
  from assms have reg: "registerFunction L q record = (q, Ok)" for q
    by (simp add: registerFunction_def)
  have created: "handleFunctionCreated L p record = (registerHTTPRoutes p, Ok)"
    by (simp add: handleFunctionCreated_def reg and_then_def)
  have updated: "handleFunctionUpdated L p record =
      (registerHTTPRoutes (fst (handleFunctionDeleted p record)), Ok)"
    by (simp add: handleFunctionUpdated_def reg and_then_def)
  have routes: "Load (httpRoutes p) k = Some r"
    if "Load (httpRoutes (fst (handleFunctionUpdated L p record))) k = Some r" for k r
    using that
    by (auto simp: updated tables_after_registerHTTPRoutes routes_after_delete
        split: option.splits if_splits)
  have trigs: "t \<in> set (bucket p k)"
    if "t \<in> set (bucket (fst (handleFunctionUpdated L p record)) k)" for k t
    using that by (simp add: updated bucket_registerHTTPRoutes bucket_after_delete)
  have cron: "Load (cronJobs p) k = Some j"
    if "Load (cronJobs (fst (handleFunctionUpdated L p record))) k = Some j" for k j
    using that
    by (auto simp: updated tables_after_registerHTTPRoutes cron_after_delete split: if_splits)
  have sched: "job \<in> set (scheduler p)"
    if "job \<in> set (scheduler (fst (handleFunctionUpdated L p record)))" for job
    using that scheduler_after_delete [of p "record"]
    by (auto simp: updated tables_after_registerHTTPRoutes)
  from reg created updated routes trigs cron sched show ?thesis
    by (simp add: tables_after_registerHTTPRoutes)
qed

theorem registerFunction_disabled_is_noop_witness:
  "registerFunction example_lib registered_state disabled_fn = (registered_state, Ok) \<and>
   handleFunctionCreated example_lib registered_state disabled_fn =
     (registerHTTPRoutes registered_state, Ok) \<and>
   Load (httpRoutes (fst (handleFunctionCreated example_lib registered_state disabled_fn)))
     ''GET:/ping'' = Some ping_route \<and>
   Load (httpRoutes (fst (handleFunctionCreated example_lib registered_state disabled_fn)))
     ''GET:/off'' = None \<and>
   snd (handleFunctionUpdated example_lib registered_state disabled_fn) = Ok"
proof -
  have off: "\<not> enabled disabled_fn"
    by (simp add: disabled_fn_def)
  note noop = registerFunction_disabled_is_noop [OF off, of example_lib registered_state]
  have none: "Load (httpRoutes registered_state) ''GET:/off'' = None"
    by (simp add: registered_state_calls tables_after_registerHTTPRoutes apply_calls_Cons
      apply_calls_Nil registerDatabaseTrigger_def registerHTTPTrigger_def Let_def
      Load_Store example_plugin_def RegisterLambdaFunctionPlugin_def Load_empty)
  from noop have "httpRoutes (fst (handleFunctionCreated example_lib registered_state disabled_fn))
      = httpRoutes registered_state"
    by simp
  with noop none registered_state_tables(1) show ?thesis
    by simp
qed

section \<open>Isolation of executions\<close>















end
